theory Spec2Isabelle
  imports Main
begin

section \<open>Go values shared by the layers\<close>

text \<open>
  The todo backend is a layered Go service: HTTP handlers (\<^verbatim>\<open>internal/server/routes.go\<close>)
  call a service (\<^verbatim>\<open>internal/service/todo_service.go\<close>) that calls a repository
  (\<^verbatim>\<open>internal/repository/todo_repository.go\<close>) over the entity of
  \<^verbatim>\<open>internal/domain\<close>. Each layer is reached through a Go interface, which is modelled
  as a record of functions over an explicit state.

  Go's \<^verbatim>\<open>uint\<close> is 64 bits wide on the platform of the Dockerfile; identifiers are natural
  numbers and the one place that produces them from text, \<^verbatim>\<open>strconv.ParseUint\<close>, checks
  the 64-bit range. A \<^verbatim>\<open>time.Time\<close> is the integer offset of the instant from the zero
  value \<^verbatim>\<open>time.Time{}\<close>; its rendering \<^verbatim>\<open>Format(time.RFC3339)\<close> is a parameter
  \<open>rfc3339\<close> of the service.
\<close>

type_synonym Time = int

subsection \<open>Error values\<close>

text \<open>
  The Go \<^verbatim>\<open>error\<close> values this program creates or inspects. \<open>ErrorString\<close> is what
  \<^verbatim>\<open>errors.New\<close> and \<^verbatim>\<open>fmt.Errorf\<close> (without \<^verbatim>\<open>%w\<close>) return; \<open>WrapError\<close> is
  \<^verbatim>\<open>fmt.Errorf\<close> with \<^verbatim>\<open>%w\<close>, a message and the wrapped cause. \<open>SyntaxError\<close> carries
  the message and \<^verbatim>\<open>Offset\<close> of a \<^verbatim>\<open>*json.SyntaxError\<close>, \<open>UnmarshalTypeError\<close> the
  rendered message, \<^verbatim>\<open>Field\<close> and \<^verbatim>\<open>Offset\<close> of a \<^verbatim>\<open>*json.UnmarshalTypeError\<close>.
  \<open>ErrSyntax\<close> and \<open>ErrRange\<close> stand for the \<^verbatim>\<open>*strconv.NumError\<close> of either kind.
\<close>

datatype error =
    ErrorString string
  | ErrRecordNotFound
  | EOF
  | ErrUnexpectedEOF
  | SyntaxError string int
  | UnmarshalTypeError string string int
  | ErrSyntax
  | ErrRange
  | WrapError string error

fun Error :: "error \<Rightarrow> string" where
  "Error (ErrorString m) = m"
| "Error ErrRecordNotFound = ''record not found''"
| "Error EOF = ''EOF''"
| "Error ErrUnexpectedEOF = ''unexpected EOF''"
| "Error (SyntaxError m off) = m"
| "Error (UnmarshalTypeError m field off) = m"
| "Error ErrSyntax = ''invalid syntax''"
| "Error ErrRange = ''value out of range''"
| "Error (WrapError m cause) = m"

text \<open>\<^verbatim>\<open>errors.Is(err, target)\<close> for a sentinel target: the chain of wrapped causes is searched.\<close>

fun errors_Is :: "error \<Rightarrow> error \<Rightarrow> bool" where
  "errors_Is (WrapError m cause) target = (WrapError m cause = target \<or> errors_Is cause target)"
| "errors_Is err target = (err = target)"

text \<open>\<^verbatim>\<open>errors.As\<close> into a \<^verbatim>\<open>*json.SyntaxError\<close> and into a \<^verbatim>\<open>*json.UnmarshalTypeError\<close>.\<close>

fun as_SyntaxError :: "error \<Rightarrow> (string \<times> int) option" where
  "as_SyntaxError (SyntaxError m off) = Some (m, off)"
| "as_SyntaxError (WrapError m cause) = as_SyntaxError cause"
| "as_SyntaxError err = None"

fun as_UnmarshalTypeError :: "error \<Rightarrow> (string \<times> string \<times> int) option" where
  "as_UnmarshalTypeError (UnmarshalTypeError m field off) = Some (m, field, off)"
| "as_UnmarshalTypeError (WrapError m cause) = as_UnmarshalTypeError cause"
| "as_UnmarshalTypeError err = None"

subsection \<open>Strings and formatting\<close>

text \<open>\<^verbatim>\<open>strings.HasPrefix\<close>, \<^verbatim>\<open>strings.TrimPrefix\<close> and \<^verbatim>\<open>strings.Contains\<close> on byte strings.\<close>

fun HasPrefix :: "string \<Rightarrow> string \<Rightarrow> bool" where
  "HasPrefix s [] = True"
| "HasPrefix [] (p # ps) = False"
| "HasPrefix (c # cs) (p # ps) = (c = p \<and> HasPrefix cs ps)"

definition TrimPrefix :: "string \<Rightarrow> string \<Rightarrow> string" where
  "TrimPrefix s p = (if HasPrefix s p then drop (length p) s else s)"

fun Contains :: "string \<Rightarrow> string \<Rightarrow> bool" where
  "Contains [] sub = (sub = [])"
| "Contains (c # cs) sub = (HasPrefix (c # cs) sub \<or> Contains cs sub)"

text \<open>The verb \<^verbatim>\<open>%d\<close> of \<^verbatim>\<open>fmt\<close>: decimal digits, with a sign for a negative \<^verbatim>\<open>int64\<close>.\<close>

definition digit :: "nat \<Rightarrow> char" where
  "digit d = ''0123456789'' ! d"

function FormatUint :: "nat \<Rightarrow> string" where
  "FormatUint n = (if n < 10 then [digit n] else FormatUint (n div 10) @ [digit (n mod 10)])"
  by pat_completeness auto
termination
  by (relation "measure id") auto

declare FormatUint.simps [simp del]

definition FormatInt :: "int \<Rightarrow> string" where
  "FormatInt i = (if i < 0 then CHR ''-'' # FormatUint (nat (- i)) else FormatUint (nat i))"

text \<open>
  The verb \<^verbatim>\<open>%q\<close> on a string (\<^verbatim>\<open>strconv.Quote\<close>), on the strings it is applied to here:
  the \<^verbatim>\<open>Field\<close> of a type error, which is a path of JSON keys of the request structs
  (printable ASCII). A double quote and a backslash are escaped.
\<close>

fun quote_body :: "string \<Rightarrow> string" where
  "quote_body [] = []"
| "quote_body (c # cs) =
     (if c = CHR 0x22 \<or> c = CHR 0x5C then CHR 0x5C # c # quote_body cs else c # quote_body cs)"

definition Quote :: "string \<Rightarrow> string" where
  "Quote s = CHR 0x22 # quote_body s @ [CHR 0x22]"

text \<open>
  \<^verbatim>\<open>strconv.ParseUint(s, 10, 64)\<close>: the empty string and any byte that is not a decimal digit
  are a syntax error (no sign, no space, no underscore in base 10); a value above
  \<^verbatim>\<open>1<<64 - 1\<close> is a range error, found at the digit that overflows.
\<close>

definition isDigit :: "char \<Rightarrow> bool" where
  "isDigit c = (48 \<le> (of_char c :: nat) \<and> (of_char c :: nat) \<le> 57)"

definition maxUint64 :: nat where
  "maxUint64 = 2 ^ 64 - 1"

fun parse_digits :: "nat \<Rightarrow> string \<Rightarrow> error + nat" where
  "parse_digits n [] = Inr n"
| "parse_digits n (c # cs) =
     (if \<not> isDigit c then Inl ErrSyntax
      else if n \<ge> maxUint64 div 10 + 1 then Inl ErrRange
      else if n * 10 + (of_char c - 48) > maxUint64 then Inl ErrRange
      else parse_digits (n * 10 + (of_char c - 48)) cs)"

definition ParseUint :: "string \<Rightarrow> error + nat" where
  "ParseUint s = (if s = [] then Inl ErrSyntax else parse_digits 0 s)"

section \<open>Entity and transfer objects\<close>

text \<open>\<^verbatim>\<open>domain.Todo\<close>: the fields of the embedded \<^verbatim>\<open>gorm.Model\<close>, then its own.\<close>

record Todo =
  ID :: nat
  CreatedAt :: Time
  UpdatedAt :: Time
  DeletedAt :: "Time option"
  Title :: string
  Completed :: bool
  UserID :: nat

record CreateTodoRequest =
  create_Title :: string
  create_UserID :: nat

text \<open>A nil pointer of the update request is \<open>None\<close>: the field was omitted.\<close>

record UpdateTodoRequest =
  update_Title :: "string option"
  update_Completed :: "bool option"

record TodoResponse =
  resp_ID :: nat
  resp_Title :: string
  resp_Completed :: bool
  resp_UserID :: nat
  resp_CreatedAt :: string
  resp_UpdatedAt :: string

section \<open>Repository contract\<close>

text \<open>
  The interface \<^verbatim>\<open>TodoRepository\<close> over a store of type \<open>'s\<close>. \<open>Create\<close> and \<open>Update\<close>
  take a pointer to the entity and may write to it (identity, timestamps): they return
  the entity as the call left it, next to the error.
\<close>

record 's TodoRepository =
  Create :: "Todo \<Rightarrow> 's \<Rightarrow> (error option \<times> Todo) \<times> 's"
  FindByID :: "nat \<Rightarrow> 's \<Rightarrow> (error + Todo) \<times> 's"
  GetAll :: "'s \<Rightarrow> (error + Todo list) \<times> 's"
  Update :: "Todo \<Rightarrow> 's \<Rightarrow> (error option \<times> Todo) \<times> 's"
  Delete :: "nat \<Rightarrow> 's \<Rightarrow> error option \<times> 's"

section \<open>Service layer\<close>

text \<open>
  The service runs over a world: the store behind the repository and the lines the
  service prints with \<^verbatim>\<open>fmt.Printf\<close>, one entry for each call.
\<close>

record 's world =
  store :: 's
  stdout :: "string list"

definition printf :: "string \<Rightarrow> 's world \<Rightarrow> 's world" where
  "printf line w = \<lparr>store = store w, stdout = stdout w @ [line]\<rparr>"

definition set_store :: "'s \<Rightarrow> 's world \<Rightarrow> 's world" where
  "set_store st w = \<lparr>store = st, stdout = stdout w\<rparr>"

text \<open>The response literal that every operation builds from an entity.\<close>

definition toResponse :: "(Time \<Rightarrow> string) \<Rightarrow> Todo \<Rightarrow> TodoResponse" where
  "toResponse rfc3339 todo =
     \<lparr>resp_ID = ID todo, resp_Title = Title todo, resp_Completed = Completed todo,
      resp_UserID = UserID todo, resp_CreatedAt = rfc3339 (CreatedAt todo),
      resp_UpdatedAt = rfc3339 (UpdatedAt todo)\<rparr>"

text \<open>
  Step 2 of \<^verbatim>\<open>CreateTodo\<close>: the entity literal, whose \<^verbatim>\<open>gorm.Model\<close> part is left at
  its zero value.
\<close>

definition newTodo :: "CreateTodoRequest \<Rightarrow> Todo" where
  "newTodo req =
     \<lparr>ID = 0, CreatedAt = 0, UpdatedAt = 0, DeletedAt = None,
      Title = create_Title req, Completed = False, UserID = create_UserID req\<rparr>"

definition todoService_CreateTodo ::
  "(Time \<Rightarrow> string) \<Rightarrow> 's TodoRepository \<Rightarrow> CreateTodoRequest \<Rightarrow> 's world
     \<Rightarrow> (error + TodoResponse) \<times> 's world" where
  "todoService_CreateTodo rfc3339 repo req w =
     (if create_Title req = [] then (Inl (ErrorString ''title cannot be empty''), w)
      else
        (case Create repo (newTodo req) (store w) of
           ((Some err, created), st) \<Rightarrow>
             (Inl (ErrorString ''failed to create todo item''),
              printf (''Error creating todo in repository: '' @ Error err @ ''\<newline>'')
                (set_store st w))
         | ((None, created), st) \<Rightarrow> (Inr (toResponse rfc3339 created), set_store st w)))"

definition todoService_GetTodoByID ::
  "(Time \<Rightarrow> string) \<Rightarrow> 's TodoRepository \<Rightarrow> nat \<Rightarrow> 's world
     \<Rightarrow> (error + TodoResponse) \<times> 's world" where
  "todoService_GetTodoByID rfc3339 repo tid w =
     (case FindByID repo tid (store w) of
        (Inl err, st) \<Rightarrow>
          (if errors_Is err ErrRecordNotFound
           then (Inl (ErrorString (''todo with ID '' @ FormatUint tid @ '' not found'')),
                 set_store st w)
           else (Inl (ErrorString ''failed to retrieve todo item''),
                 printf (''Error fetching todo '' @ FormatUint tid @ '' from repository: ''
                         @ Error err @ ''\<newline>'') (set_store st w)))
      | (Inr todo, st) \<Rightarrow> (Inr (toResponse rfc3339 todo), set_store st w))"

definition todoService_GetAllTodos ::
  "(Time \<Rightarrow> string) \<Rightarrow> 's TodoRepository \<Rightarrow> 's world
     \<Rightarrow> (error + TodoResponse list) \<times> 's world" where
  "todoService_GetAllTodos rfc3339 repo w =
     (case GetAll repo (store w) of
        (Inl err, st) \<Rightarrow>
          (Inl (ErrorString ''failed to retrieve todo items''),
           printf (''Error fetching all todos from repository: '' @ Error err @ ''\<newline>'')
             (set_store st w))
      | (Inr todos, st) \<Rightarrow> (Inr (map (toResponse rfc3339) todos), set_store st w))"

text \<open>
  Step 2 of \<^verbatim>\<open>UpdateTodo\<close>: the two guarded assignments to the loaded entity and the
  flag \<^verbatim>\<open>updated\<close>. The second test reads the entity after the first assignment.
\<close>

definition applyTitle :: "UpdateTodoRequest \<Rightarrow> Todo \<times> bool \<Rightarrow> Todo \<times> bool" where
  "applyTitle req eu =
     (case update_Title req of
        None \<Rightarrow> eu
      | Some t \<Rightarrow> (if t \<noteq> [] \<and> t \<noteq> Title (fst eu) then ((fst eu)\<lparr>Title := t\<rparr>, True) else eu))"

definition applyCompleted :: "UpdateTodoRequest \<Rightarrow> Todo \<times> bool \<Rightarrow> Todo \<times> bool" where
  "applyCompleted req eu =
     (case update_Completed req of
        None \<Rightarrow> eu
      | Some c \<Rightarrow> (if c \<noteq> Completed (fst eu) then ((fst eu)\<lparr>Completed := c\<rparr>, True) else eu))"

definition applyUpdates :: "Todo \<Rightarrow> UpdateTodoRequest \<Rightarrow> Todo \<times> bool" where
  "applyUpdates existingTodo req = applyCompleted req (applyTitle req (existingTodo, False))"

definition todoService_UpdateTodo ::
  "(Time \<Rightarrow> string) \<Rightarrow> 's TodoRepository \<Rightarrow> nat \<Rightarrow> UpdateTodoRequest \<Rightarrow> 's world
     \<Rightarrow> (error + TodoResponse) \<times> 's world" where
  "todoService_UpdateTodo rfc3339 repo tid req w =
     (case FindByID repo tid (store w) of
        (Inl err, st) \<Rightarrow>
          (if errors_Is err ErrRecordNotFound
           then (Inl (ErrorString (''todo with ID '' @ FormatUint tid @ '' not found for update'')),
                 set_store st w)
           else (Inl (ErrorString ''failed to retrieve todo item for update''),
                 printf (''Error fetching todo '' @ FormatUint tid @ '' for update: ''
                         @ Error err @ ''\<newline>'') (set_store st w)))
      | (Inr existingTodo, st) \<Rightarrow>
          (case applyUpdates existingTodo req of
             (todo, False) \<Rightarrow>
               (Inr (toResponse rfc3339 todo),
                printf (''No changes detected for todo '' @ FormatUint tid @ ''\<newline>'')
                  (set_store st w))
           | (todo, True) \<Rightarrow>
               (case Update repo todo st of
                  ((Some err, saved), st') \<Rightarrow>
                    (Inl (ErrorString ''failed to update todo item''),
                     printf (''Error updating todo '' @ FormatUint tid @ '' in repository: ''
                             @ Error err @ ''\<newline>'') (set_store st' w))
                | ((None, saved), st') \<Rightarrow> (Inr (toResponse rfc3339 saved), set_store st' w))))"

definition todoService_DeleteTodo ::
  "'s TodoRepository \<Rightarrow> nat \<Rightarrow> 's world \<Rightarrow> error option \<times> 's world" where
  "todoService_DeleteTodo repo tid w =
     (case FindByID repo tid (store w) of
        (Inl err, st) \<Rightarrow>
          (if errors_Is err ErrRecordNotFound
           then (Some (ErrorString (''todo with ID '' @ FormatUint tid @ '' not found for deletion'')),
                 set_store st w)
           else (Some (ErrorString ''failed to check todo item before deletion''),
                 printf (''Error checking existence of todo '' @ FormatUint tid
                         @ '' before delete: '' @ Error err @ ''\<newline>'') (set_store st w)))
      | (Inr found, st) \<Rightarrow>
          (case Delete repo tid st of
             (Some err, st') \<Rightarrow>
               (Some (ErrorString ''failed to delete todo item''),
                printf (''Error deleting todo '' @ FormatUint tid @ '' from repository: ''
                        @ Error err @ ''\<newline>'') (set_store st' w))
           | (None, st') \<Rightarrow> (None, set_store st' w)))"

text \<open>
  The interface \<^verbatim>\<open>TodoService\<close> over a world of type \<open>'w\<close>, and \<^verbatim>\<open>NewTodoService\<close>, which
  hides the implementation above behind it.
\<close>

record 'w TodoService =
  CreateTodo :: "CreateTodoRequest \<Rightarrow> 'w \<Rightarrow> (error + TodoResponse) \<times> 'w"
  GetTodoByID :: "nat \<Rightarrow> 'w \<Rightarrow> (error + TodoResponse) \<times> 'w"
  GetAllTodos :: "'w \<Rightarrow> (error + TodoResponse list) \<times> 'w"
  UpdateTodo :: "nat \<Rightarrow> UpdateTodoRequest \<Rightarrow> 'w \<Rightarrow> (error + TodoResponse) \<times> 'w"
  DeleteTodo :: "nat \<Rightarrow> 'w \<Rightarrow> error option \<times> 'w"

definition NewTodoService :: "(Time \<Rightarrow> string) \<Rightarrow> 's TodoRepository \<Rightarrow> 's world TodoService" where
  "NewTodoService rfc3339 repo =
     \<lparr>CreateTodo = todoService_CreateTodo rfc3339 repo,
      GetTodoByID = todoService_GetTodoByID rfc3339 repo,
      GetAllTodos = todoService_GetAllTodos rfc3339 repo,
      UpdateTodo = todoService_UpdateTodo rfc3339 repo,
      DeleteTodo = todoService_DeleteTodo repo\<rparr>"

section \<open>Transport adapter\<close>

subsection \<open>Responses\<close>

text \<open>
  What \<^verbatim>\<open>json.Marshal\<close> makes of the three payloads the handlers pass to it, as a JSON
  value: a \<^verbatim>\<open>map[string]string\<close> (the error map has one key), a \<^verbatim>\<open>*TodoResponse\<close>
  with its field tags in declaration order, and a non-nil \<^verbatim>\<open>[]TodoResponse\<close>. None of
  them holds a value that \<^verbatim>\<open>json.Marshal\<close> refuses, so the error it can return in
  general never arises here.
\<close>

datatype json =
    JBool bool
  | JNumber nat
  | JString string
  | JArray "json list"
  | JObject "(string \<times> json) list"

datatype payload =
    StringMap "(string \<times> string) list"
  | TodoPayload TodoResponse
  | TodoListPayload "TodoResponse list"

definition json_of_response :: "TodoResponse \<Rightarrow> json" where
  "json_of_response r =
     JObject [(''id'', JNumber (resp_ID r)), (''title'', JString (resp_Title r)),
              (''completed'', JBool (resp_Completed r)), (''user_id'', JNumber (resp_UserID r)),
              (''created_at'', JString (resp_CreatedAt r)),
              (''updated_at'', JString (resp_UpdatedAt r))]"

fun json_Marshal :: "payload \<Rightarrow> error + json" where
  "json_Marshal (StringMap kvs) = Inr (JObject (map (\<lambda>(k, v). (k, JString v)) kvs))"
| "json_Marshal (TodoPayload r) = Inr (json_of_response r)"
| "json_Marshal (TodoListPayload rs) = Inr (JArray (map json_of_response rs))"

text \<open>
  What a handler leaves behind: the status line, the \<^verbatim>\<open>Content-Type\<close> header and the body
  written to the \<^verbatim>\<open>ResponseWriter\<close>, the lines it logged with \<^verbatim>\<open>log.Printf\<close>, and the
  world of the service it called.
\<close>

record http_response =
  status :: nat
  content_type :: "string option"
  body :: "json option"

record 'w outcome =
  response :: http_response
  logged :: "string list"
  world :: 'w

definition respondWithJSON :: "nat \<Rightarrow> payload \<Rightarrow> http_response \<times> string list" where
  "respondWithJSON code p =
     (case json_Marshal p of
        Inl err \<Rightarrow>
          (\<lparr>status = 500, content_type = Some ''application/json; charset=utf-8'',
            body = Some (JObject [(''error'', JString ''Internal server error preparing response'')])\<rparr>,
           [''Error marshaling JSON response: '' @ Error err])
      | Inr encoded \<Rightarrow>
          (\<lparr>status = code, content_type = Some ''application/json; charset=utf-8'',
            body = Some encoded\<rparr>, []))"

definition respondWithError :: "nat \<Rightarrow> string \<Rightarrow> http_response \<times> string list" where
  "respondWithError code message = respondWithJSON code (StringMap [(''error'', message)])"

text \<open>A handler's reply after it logged \<open>ls\<close> and the service left the world \<open>w\<close>.\<close>

definition reply :: "string list \<Rightarrow> 'w \<Rightarrow> http_response \<times> string list \<Rightarrow> 'w outcome" where
  "reply ls w r = \<lparr>response = fst r, logged = ls @ snd r, world = w\<rparr>"

subsection \<open>Handlers\<close>

text \<open>
  A request reaches a handler as the text of its \<^verbatim>\<open>{id}\<close> path parameter and as what
  \<^verbatim>\<open>json.NewDecoder(r.Body)\<close> with \<^verbatim>\<open>DisallowUnknownFields\<close> returns from \<^verbatim>\<open>Decode\<close>: the
  request struct or the decoder's error. For a key that is no field of the struct that
  error is \<^verbatim>\<open>fmt.Errorf("json: unknown field %q", key)\<close>.
\<close>

record 'w Server =
  port :: int
  todoService :: "'w TodoService"

definition createTodoHandler :: "'w Server \<Rightarrow> error + CreateTodoRequest \<Rightarrow> 'w \<Rightarrow> 'w outcome" where
  "createTodoHandler s decoded w =
     (case decoded of
        Inl err \<Rightarrow>
          (case as_SyntaxError err of
             Some (m, off) \<Rightarrow>
               reply [] w (respondWithError 400
                 (''Request body contains badly-formed JSON (at position '' @ FormatInt off @ '')''))
           | None \<Rightarrow>
               if errors_Is err ErrUnexpectedEOF
               then reply [] w (respondWithError 400 ''Request body contains badly-formed JSON'')
               else
                 (case as_UnmarshalTypeError err of
                    Some (m, field, off) \<Rightarrow>
                      reply [] w (respondWithError 400
                        (''Request body contains an invalid value for the '' @ Quote field
                         @ '' field (at position '' @ FormatInt off @ '')''))
                  | None \<Rightarrow>
                      if HasPrefix (Error err) ''json: unknown field ''
                      then reply [] w (respondWithError 400
                             (''Request body contains unknown field ''
                              @ TrimPrefix (Error err) ''json: unknown field ''))
                      else if errors_Is err EOF
                      then reply [] w (respondWithError 400 ''Request body must not be empty'')
                      else reply [''Error decoding create todo request: '' @ Error err] w
                             (respondWithError 500 ''Error processing request'')))
      | Inr req \<Rightarrow>
          (case CreateTodo (todoService s) req w of
             (Inl err, w') \<Rightarrow>
               if Error err = ''title cannot be empty''
               then reply [] w' (respondWithError 400 (Error err))
               else reply [''Error calling CreateTodo service: '' @ Error err] w'
                      (respondWithError 500 ''Failed to create todo'')
           | (Inr todoResp, w') \<Rightarrow> reply [] w' (respondWithJSON 201 (TodoPayload todoResp))))"

definition getAllTodosHandler :: "'w Server \<Rightarrow> 'w \<Rightarrow> 'w outcome" where
  "getAllTodosHandler s w =
     (case GetAllTodos (todoService s) w of
        (Inl err, w') \<Rightarrow>
          reply [''Error calling GetAllTodos service: '' @ Error err] w'
            (respondWithError 500 ''Failed to retrieve todos'')
      | (Inr todos, w') \<Rightarrow> reply [] w' (respondWithJSON 200 (TodoListPayload todos)))"

definition getTodoByIDHandler :: "'w Server \<Rightarrow> string \<Rightarrow> 'w \<Rightarrow> 'w outcome" where
  "getTodoByIDHandler s idStr w =
     (case ParseUint idStr of
        Inl err \<Rightarrow> reply [] w (respondWithError 400 ''Invalid todo ID provided'')
      | Inr tid \<Rightarrow>
          if tid = 0 then reply [] w (respondWithError 400 ''Invalid todo ID provided'')
          else
            (case GetTodoByID (todoService s) tid w of
               (Inl err, w') \<Rightarrow>
                 if Contains (Error err) ''not found''
                 then reply [] w' (respondWithError 404 (Error err))
                 else reply [''Error calling GetTodoByID service: '' @ Error err] w'
                        (respondWithError 500 ''Failed to retrieve todo'')
             | (Inr todo, w') \<Rightarrow> reply [] w' (respondWithJSON 200 (TodoPayload todo))))"

definition updateTodoHandler ::
  "'w Server \<Rightarrow> string \<Rightarrow> error + UpdateTodoRequest \<Rightarrow> 'w \<Rightarrow> 'w outcome" where
  "updateTodoHandler s idStr decoded w =
     (case ParseUint idStr of
        Inl err \<Rightarrow> reply [] w (respondWithError 400 ''Invalid todo ID provided'')
      | Inr tid \<Rightarrow>
          if tid = 0 then reply [] w (respondWithError 400 ''Invalid todo ID provided'')
          else
            (case decoded of
               Inl err \<Rightarrow>
                 reply [''Error decoding update todo request: '' @ Error err] w
                   (respondWithError 400 ''Invalid request body'')
             | Inr req \<Rightarrow>
                 (case UpdateTodo (todoService s) tid req w of
                    (Inl err, w') \<Rightarrow>
                      if Contains (Error err) ''not found''
                      then reply [] w' (respondWithError 404 (Error err))
                      else reply [''Error calling UpdateTodo service: '' @ Error err] w'
                             (respondWithError 500 ''Failed to update todo'')
                  | (Inr updatedTodo, w') \<Rightarrow>
                      reply [] w' (respondWithJSON 200 (TodoPayload updatedTodo)))))"

definition deleteTodoHandler :: "'w Server \<Rightarrow> string \<Rightarrow> 'w \<Rightarrow> 'w outcome" where
  "deleteTodoHandler s idStr w =
     (case ParseUint idStr of
        Inl err \<Rightarrow> reply [] w (respondWithError 400 ''Invalid todo ID provided'')
      | Inr tid \<Rightarrow>
          if tid = 0 then reply [] w (respondWithError 400 ''Invalid todo ID provided'')
          else
            (case DeleteTodo (todoService s) tid w of
               (Some err, w') \<Rightarrow>
                 if Contains (Error err) ''not found''
                 then reply [] w' (respondWithError 404 (Error err))
                 else reply [''Error calling DeleteTodo service: '' @ Error err] w'
                        (respondWithError 500 ''Failed to delete todo'')
             | (None, w') \<Rightarrow>
                 \<lparr>response = \<lparr>status = 204, content_type = None, body = None\<rparr>,
                  logged = [], world = w'\<rparr>))"

section \<open>Observing and instantiating the interfaces\<close>

text \<open>
  Whether a layer calls the one below is observed as a Go test would: through a wrapper
  that implements the same interface, appends each call to a list kept next to the state
  and then delegates.
\<close>

datatype repo_call =
    CallCreate Todo
  | CallFindByID nat
  | CallGetAll
  | CallUpdate Todo
  | CallDelete nat

definition recording :: "'s TodoRepository \<Rightarrow> ('s \<times> repo_call list) TodoRepository" where
  "recording repo =
     \<lparr>Create = (\<lambda>todo (st, calls).
        case Create repo todo st of (r, st') \<Rightarrow> (r, (st', calls @ [CallCreate todo]))),
      FindByID = (\<lambda>tid (st, calls).
        case FindByID repo tid st of (r, st') \<Rightarrow> (r, (st', calls @ [CallFindByID tid]))),
      GetAll = (\<lambda>(st, calls).
        case GetAll repo st of (r, st') \<Rightarrow> (r, (st', calls @ [CallGetAll]))),
      Update = (\<lambda>todo (st, calls).
        case Update repo todo st of (r, st') \<Rightarrow> (r, (st', calls @ [CallUpdate todo]))),
      Delete = (\<lambda>tid (st, calls).
        case Delete repo tid st of (r, st') \<Rightarrow> (r, (st', calls @ [CallDelete tid])))\<rparr>"

datatype service_call =
    CallCreateTodo CreateTodoRequest
  | CallGetTodoByID nat
  | CallGetAllTodos
  | CallUpdateTodo nat UpdateTodoRequest
  | CallDeleteTodo nat

definition recordingService :: "'w TodoService \<Rightarrow> ('w \<times> service_call list) TodoService" where
  "recordingService svc =
     \<lparr>CreateTodo = (\<lambda>req (w, calls).
        case CreateTodo svc req w of (r, w') \<Rightarrow> (r, (w', calls @ [CallCreateTodo req]))),
      GetTodoByID = (\<lambda>tid (w, calls).
        case GetTodoByID svc tid w of (r, w') \<Rightarrow> (r, (w', calls @ [CallGetTodoByID tid]))),
      GetAllTodos = (\<lambda>(w, calls).
        case GetAllTodos svc w of (r, w') \<Rightarrow> (r, (w', calls @ [CallGetAllTodos]))),
      UpdateTodo = (\<lambda>tid req (w, calls).
        case UpdateTodo svc tid req w of (r, w') \<Rightarrow> (r, (w', calls @ [CallUpdateTodo tid req]))),
      DeleteTodo = (\<lambda>tid (w, calls).
        case DeleteTodo svc tid w of (r, w') \<Rightarrow> (r, (w', calls @ [CallDeleteTodo tid])))\<rparr>"

text \<open>
  An in-memory repository with the behaviour the GORM calls of
  \<^verbatim>\<open>gormTodoRepository\<close> have on a table with soft deletion: \<^verbatim>\<open>Create\<close> assigns the next
  identity and both timestamps, \<^verbatim>\<open>First\<close> and \<^verbatim>\<open>Find\<close> see the rows without a deletion
  mark, \<^verbatim>\<open>Save\<close> overwrites the row and its modification time, \<^verbatim>\<open>Delete\<close> marks the row
  and reports no error when there is none. It is the concrete repository at which the
  theorems below are instantiated.
\<close>

record memStore =
  rows :: "Todo list"
  nextID :: nat
  clock :: Time

definition emptyStore :: memStore where
  "emptyStore = \<lparr>rows = [], nextID = 1, clock = 1\<rparr>"

definition live :: "Todo \<Rightarrow> bool" where
  "live todo = (DeletedAt todo = None)"

definition memRepo :: "memStore TodoRepository" where
  "memRepo =
     \<lparr>Create = (\<lambda>todo st.
        ((None, todo\<lparr>ID := nextID st, CreatedAt := clock st, UpdatedAt := clock st\<rparr>),
         \<lparr>rows = rows st @ [todo\<lparr>ID := nextID st, CreatedAt := clock st, UpdatedAt := clock st\<rparr>],
          nextID = Suc (nextID st), clock = clock st + 1\<rparr>)),
      FindByID = (\<lambda>tid st.
        (case find (\<lambda>todo. ID todo = tid \<and> live todo) (rows st) of
           None \<Rightarrow> Inl ErrRecordNotFound
         | Some todo \<Rightarrow> Inr todo, st)),
      GetAll = (\<lambda>st. (Inr (filter live (rows st)), st)),
      Update = (\<lambda>todo st.
        ((None, todo\<lparr>UpdatedAt := clock st\<rparr>),
         \<lparr>rows = map (\<lambda>row. if ID row = ID todo then todo\<lparr>UpdatedAt := clock st\<rparr> else row)
                   (rows st),
          nextID = nextID st, clock = clock st + 1\<rparr>)),
      Delete = (\<lambda>tid st.
        (None,
         \<lparr>rows = map (\<lambda>row. if ID row = tid \<and> live row
                               then row\<lparr>DeletedAt := Some (clock st)\<rparr> else row) (rows st),
          nextID = nextID st, clock = clock st + 1\<rparr>))\<rparr>"

text \<open>A repository behind which the store is down: every call fails with \<open>err\<close>.\<close>

definition failingRepo :: "error \<Rightarrow> 's TodoRepository" where
  "failingRepo err =
     \<lparr>Create = (\<lambda>todo st. ((Some err, todo), st)),
      FindByID = (\<lambda>tid st. (Inl err, st)),
      GetAll = (\<lambda>st. (Inl err, st)),
      Update = (\<lambda>todo st. ((Some err, todo), st)),
      Delete = (\<lambda>tid st. (Some err, st))\<rparr>"

text \<open>A store with one live row, and a world over it.\<close>

definition milk :: Todo where
  "milk = \<lparr>ID = 1, CreatedAt = 1, UpdatedAt = 1, DeletedAt = None,
           Title = ''buy milk'', Completed = True, UserID = 0\<rparr>"

definition oneStore :: memStore where
  "oneStore = \<lparr>rows = [milk], nextID = 2, clock = 2\<rparr>"

text \<open>The spec's words for a title that \<open>CreateTodo\<close> is to refuse: empty or whitespace only.\<close>

definition isSpace :: "char \<Rightarrow> bool" where
  "isSpace c = (c = CHR '' '' \<or> c = CHR 0x09 \<or> c = CHR 0x0A \<or> c = CHR 0x0B \<or> c = CHR 0x0C
                \<or> c = CHR 0x0D)"

definition spec_blank_title :: "string \<Rightarrow> bool" where
  "spec_blank_title t = list_all isSpace t"

text \<open>
  The condition under which \<open>GetTodoByID\<close>, \<open>UpdateTodo\<close> and \<open>DeleteTodo\<close> take their
  not-found branch: the \<open>FindByID\<close> they begin with returns an error that is
  \<^verbatim>\<open>gorm.ErrRecordNotFound\<close>.
\<close>

definition loadNotFound :: "'s TodoRepository \<Rightarrow> nat \<Rightarrow> 's world \<Rightarrow> bool" where
  "loadNotFound repo tid w =
     (case fst (FindByID repo tid (store w)) of
        Inl err \<Rightarrow> errors_Is err ErrRecordNotFound
      | Inr todo \<Rightarrow> False)"

text \<open>
  A world whose store is watched by \<open>recording\<close>, and the calls seen so far in such a world.
\<close>

abbreviation watched :: "'s \<Rightarrow> repo_call list \<Rightarrow> string list \<Rightarrow> ('s \<times> repo_call list) world" where
  "watched st calls out \<equiv> \<lparr>store = (st, calls), stdout = out\<rparr>"

abbreviation calls_of :: "('s \<times> repo_call list) world \<Rightarrow> repo_call list" where
  "calls_of w \<equiv> snd (store w)"

section \<open>Facts about the wrappers and the library functions\<close>

lemma recording_Create:
  "Create (recording repo) todo (st, calls) =
     (fst (Create repo todo st), (snd (Create repo todo st), calls @ [CallCreate todo]))"
  by (simp add: recording_def split: prod.splits)

lemma recording_FindByID:
  "FindByID (recording repo) tid (st, calls) =
     (fst (FindByID repo tid st), (snd (FindByID repo tid st), calls @ [CallFindByID tid]))"
  by (simp add: recording_def split: prod.splits)

lemma recording_GetAll:
  "GetAll (recording repo) (st, calls) =
     (fst (GetAll repo st), (snd (GetAll repo st), calls @ [CallGetAll]))"
  by (simp add: recording_def split: prod.splits)

lemma recording_Update:
  "Update (recording repo) todo (st, calls) =
     (fst (Update repo todo st), (snd (Update repo todo st), calls @ [CallUpdate todo]))"
  by (simp add: recording_def split: prod.splits)

lemma recording_Delete:
  "Delete (recording repo) tid (st, calls) =
     (fst (Delete repo tid st), (snd (Delete repo tid st), calls @ [CallDelete tid]))"
  by (simp add: recording_def split: prod.splits)

section \<open>Validation of the title in \<open>CreateTodo\<close>\<close>

text \<open>
  Claim C1, as the code has it. \<open>CreateTodo\<close> tests the title against the empty string
  only. A request with the empty title gets the validation error and leaves the world as
  it was, the list of repository calls included: \<open>Create\<close> is not invoked. A request with
  any other title, one of blanks too, never gets the validation error, and the repository's
  \<open>Create\<close> is invoked once, with the entity made from the request.
\<close>

theorem CreateTodo_validation:
  "(create_Title req = [] \<longrightarrow>
      todoService_CreateTodo rfc3339 (recording repo) req \<lparr>store = (st, calls), stdout = out\<rparr>
        = (Inl (ErrorString ''title cannot be empty''), \<lparr>store = (st, calls), stdout = out\<rparr>))
   \<and> (create_Title req \<noteq> [] \<longrightarrow>
      fst (todoService_CreateTodo rfc3339 (recording repo) req \<lparr>store = (st, calls), stdout = out\<rparr>)
        \<noteq> Inl (ErrorString ''title cannot be empty'')
      \<and> snd (store (snd (todoService_CreateTodo rfc3339 (recording repo) req
                           \<lparr>store = (st, calls), stdout = out\<rparr>)))
        = calls @ [CallCreate (newTodo req)])"
  by (auto simp: todoService_CreateTodo_def recording_Create set_store_def printf_def
           split: prod.splits option.splits)

text \<open>The theorem at the empty title and at the title \<^verbatim>\<open>buy milk\<close>, over the in-memory repository.\<close>

theorem CreateTodo_validation_witness:
  "todoService_CreateTodo FormatInt (recording memRepo) \<lparr>create_Title = [], create_UserID = 7\<rparr>
       \<lparr>store = (emptyStore, []), stdout = []\<rparr>
     = (Inl (ErrorString ''title cannot be empty''), \<lparr>store = (emptyStore, []), stdout = []\<rparr>)
   \<and> fst (todoService_CreateTodo FormatInt (recording memRepo)
            \<lparr>create_Title = ''buy milk'', create_UserID = 7\<rparr>
            \<lparr>store = (emptyStore, []), stdout = []\<rparr>)
     \<noteq> Inl (ErrorString ''title cannot be empty'')
   \<and> snd (store (snd (todoService_CreateTodo FormatInt (recording memRepo)
            \<lparr>create_Title = ''buy milk'', create_UserID = 7\<rparr>
            \<lparr>store = (emptyStore, []), stdout = []\<rparr>)))
     = [CallCreate \<lparr>ID = 0, CreatedAt = 0, UpdatedAt = 0, DeletedAt = None,
                    Title = ''buy milk'', Completed = False, UserID = 7\<rparr>]"
  using CreateTodo_validation
          [of "\<lparr>create_Title = [], create_UserID = 7\<rparr>" FormatInt memRepo emptyStore "[]" "[]"]
        CreateTodo_validation
          [of "\<lparr>create_Title = ''buy milk'', create_UserID = 7\<rparr>" FormatInt memRepo emptyStore
              "[]" "[]"]
  by (simp add: newTodo_def)

text \<open>
  C1 as stated fails at the title of one space: it consists of whitespace only, and
  \<open>CreateTodo\<close> passes it to the repository and answers with the created todo.
\<close>

theorem CreateTodo_whitespace_counterexample:
  "spec_blank_title '' ''
   \<and> todoService_CreateTodo FormatInt (recording memRepo) \<lparr>create_Title = '' '', create_UserID = 0\<rparr>
       \<lparr>store = (emptyStore, []), stdout = []\<rparr>
     = (Inr \<lparr>resp_ID = 1, resp_Title = '' '', resp_Completed = False, resp_UserID = 0,
             resp_CreatedAt = ''1'', resp_UpdatedAt = ''1''\<rparr>,
        \<lparr>store = (\<lparr>rows = [\<lparr>ID = 1, CreatedAt = 1, UpdatedAt = 1, DeletedAt = None,
                              Title = '' '', Completed = False, UserID = 0\<rparr>],
                    nextID = 2, clock = 2\<rparr>,
                   [CallCreate \<lparr>ID = 0, CreatedAt = 0, UpdatedAt = 0, DeletedAt = None,
                                Title = '' '', Completed = False, UserID = 0\<rparr>]),
          stdout = []\<rparr>)"
  by (simp add: spec_blank_title_def isSpace_def todoService_CreateTodo_def recording_Create
        newTodo_def memRepo_def emptyStore_def set_store_def toResponse_def FormatInt_def FormatUint.simps digit_def)

section \<open>Reconciliation of a partial update\<close>

text \<open>
  What step 2 of \<open>UpdateTodo\<close> computes, in closed form, and what the whole operation does
  once the entity is loaded.
\<close>

lemma applyUpdates_eq:
  "applyUpdates e req =
     (e\<lparr>Title := (case update_Title req of None \<Rightarrow> Title e | Some t \<Rightarrow> if t = [] then Title e else t),
        Completed := (case update_Completed req of None \<Rightarrow> Completed e | Some c \<Rightarrow> c)\<rparr>,
      (case update_Title req of None \<Rightarrow> False | Some t \<Rightarrow> t \<noteq> [] \<and> t \<noteq> Title e)
      \<or> (case update_Completed req of None \<Rightarrow> False | Some c \<Rightarrow> c \<noteq> Completed e))"
  by (auto simp: applyUpdates_def applyTitle_def applyCompleted_def split: option.splits)

lemma applyUpdates_clean: "\<not> snd (applyUpdates e req) \<Longrightarrow> fst (applyUpdates e req) = e"
  by (auto simp: applyUpdates_eq split: option.splits if_splits)

lemma UpdateTodo_loaded:
  assumes "FindByID repo tid (store w) = (Inr e, st1)"
  shows "todoService_UpdateTodo rfc3339 repo tid req w =
     (if snd (applyUpdates e req)
      then (case Update repo (fst (applyUpdates e req)) st1 of
              ((Some err, saved), st2) \<Rightarrow>
                (Inl (ErrorString ''failed to update todo item''),
                 printf (''Error updating todo '' @ FormatUint tid @ '' in repository: ''
                         @ Error err @ ''\<newline>'') (set_store st2 w))
            | ((None, saved), st2) \<Rightarrow> (Inr (toResponse rfc3339 saved), set_store st2 w))
      else (Inr (toResponse rfc3339 e),
            printf (''No changes detected for todo '' @ FormatUint tid @ ''\<newline>'')
              (set_store st1 w)))"
proof (cases "applyUpdates e req")
  case (Pair todo updated)
  then have "\<not> updated \<Longrightarrow> todo = e"
    using applyUpdates_clean [of e req] by simp
  with assms Pair show ?thesis
    by (cases updated) (simp_all add: todoService_UpdateTodo_def)
qed

lemma UpdateTodo_watched_calls:
  assumes "FindByID repo tid st = (Inr e, st1)"
  shows "calls_of (snd (todoService_UpdateTodo rfc3339 (recording repo) tid req (watched st calls out))) =
     (if snd (applyUpdates e req)
      then calls @ [CallFindByID tid, CallUpdate (fst (applyUpdates e req))]
      else calls @ [CallFindByID tid])"
proof -
  have "FindByID (recording repo) tid (store (watched st calls out))
          = (Inr e, (st1, calls @ [CallFindByID tid]))"
    using assms by (simp add: recording_FindByID)
  from UpdateTodo_loaded [OF this] show ?thesis
    by (simp add: recording_Update set_store_def printf_def split: prod.splits option.splits)
qed

lemma UpdateTodo_absent_title:
  "update_Title req = Some [] \<Longrightarrow>
     todoService_UpdateTodo rfc3339 repo tid req w
       = todoService_UpdateTodo rfc3339 repo tid (req\<lparr>update_Title := None\<rparr>) w"
proof -
  assume "update_Title req = Some []"
  then have "applyUpdates e req = applyUpdates e (req\<lparr>update_Title := None\<rparr>)" for e
    by (simp add: applyUpdates_eq)
  then show ?thesis
    by (simp only: todoService_UpdateTodo_def)
qed

text \<open>
  Claim C3. On an entity \<open>e\<close> that the repository loads for the identifier: a title that is
  present, not empty and different from the title of \<open>e\<close> becomes the title of the entity,
  sets the flag \<^verbatim>\<open>updated\<close>, and the entity goes to the repository's \<open>Update\<close>. A present
  empty title leaves the title as it is and is no error: the operation does exactly what
  it does for the same request without a title, and a present completed flag that differs
  is still saved. An absent title leaves the title as it is.
\<close>

theorem UpdateTodo_title:
  assumes "FindByID repo tid st = (Inr e, st1)"
  shows "(\<forall>t. update_Title req = Some t \<and> t \<noteq> [] \<and> t \<noteq> Title e \<longrightarrow>
            Title (fst (applyUpdates e req)) = t \<and> snd (applyUpdates e req)
          \<and> calls_of (snd (todoService_UpdateTodo rfc3339 (recording repo) tid req
                              (watched st calls out)))
              = calls @ [CallFindByID tid, CallUpdate (fst (applyUpdates e req))])
       \<and> (update_Title req = Some [] \<longrightarrow>
            Title (fst (applyUpdates e req)) = Title e
          \<and> todoService_UpdateTodo rfc3339 (recording repo) tid req (watched st calls out)
              = todoService_UpdateTodo rfc3339 (recording repo) tid (req\<lparr>update_Title := None\<rparr>)
                  (watched st calls out)
          \<and> (update_Completed req = Some (\<not> Completed e) \<longrightarrow>
                calls_of (snd (todoService_UpdateTodo rfc3339 (recording repo) tid req
                                 (watched st calls out)))
                  = calls @ [CallFindByID tid, CallUpdate (e\<lparr>Completed := \<not> Completed e\<rparr>)]))
       \<and> (update_Title req = None \<longrightarrow> Title (fst (applyUpdates e req)) = Title e)"
  using UpdateTodo_watched_calls [OF assms, of rfc3339 req calls out]
        UpdateTodo_absent_title [of req rfc3339 "recording repo" tid "watched st calls out"]
  by (auto simp: applyUpdates_eq)

text \<open>
  The theorem on the stored todo \<^verbatim>\<open>buy milk\<close>, for a new title, for an empty title next
  to a changed flag, and for an absent title.
\<close>

theorem UpdateTodo_title_witness:
  "FindByID memRepo 1 oneStore = (Inr milk, oneStore)
   \<and> calls_of (snd (todoService_UpdateTodo FormatInt (recording memRepo) 1
                      \<lparr>update_Title = Some ''buy bread'', update_Completed = None\<rparr>
                      (watched oneStore [] [])))
       = [CallFindByID 1, CallUpdate (milk\<lparr>Title := ''buy bread''\<rparr>)]
   \<and> calls_of (snd (todoService_UpdateTodo FormatInt (recording memRepo) 1
                      \<lparr>update_Title = Some [], update_Completed = Some False\<rparr>
                      (watched oneStore [] [])))
       = [CallFindByID 1, CallUpdate (milk\<lparr>Completed := False\<rparr>)]
   \<and> Title (fst (applyUpdates milk \<lparr>update_Title = None, update_Completed = Some False\<rparr>))
       = ''buy milk''"
proof -
  have h: "FindByID memRepo 1 oneStore = (Inr milk, oneStore)"
    by (simp add: memRepo_def oneStore_def milk_def live_def)
  show ?thesis
    using h
      UpdateTodo_title [OF h, of "\<lparr>update_Title = Some ''buy bread'', update_Completed = None\<rparr>"
                          FormatInt "[]" "[]"]
      UpdateTodo_title [OF h, of "\<lparr>update_Title = Some [], update_Completed = Some False\<rparr>"
                          FormatInt "[]" "[]"]
      UpdateTodo_title [OF h, of "\<lparr>update_Title = None, update_Completed = Some False\<rparr>"
                          FormatInt "[]" "[]"]
    by (auto simp: milk_def applyUpdates_eq)
qed

text \<open>
  Claim C4. On an entity \<open>e\<close> that the repository loads for the identifier: a present
  completed flag that differs from the one of \<open>e\<close> (\<open>False\<close> over \<open>True\<close> as much as
  \<open>True\<close> over \<open>False\<close>) becomes the flag of the entity, sets \<^verbatim>\<open>updated\<close>, and the entity
  goes to the repository's \<open>Update\<close>. A present flag equal to the current one changes
  nothing and does not set \<^verbatim>\<open>updated\<close>: the repository's \<open>Update\<close> is called exactly when
  the title is present, not empty and different.
\<close>

theorem UpdateTodo_completed:
  assumes "FindByID repo tid st = (Inr e, st1)"
  shows "(update_Completed req = Some (\<not> Completed e) \<longrightarrow>
            Completed (fst (applyUpdates e req)) = (\<not> Completed e) \<and> snd (applyUpdates e req)
          \<and> calls_of (snd (todoService_UpdateTodo rfc3339 (recording repo) tid req
                              (watched st calls out)))
              = calls @ [CallFindByID tid, CallUpdate (fst (applyUpdates e req))])
       \<and> (update_Completed req = Some (Completed e) \<longrightarrow>
            Completed (fst (applyUpdates e req)) = Completed e
          \<and> snd (applyUpdates e req)
              = (case update_Title req of None \<Rightarrow> False | Some t \<Rightarrow> t \<noteq> [] \<and> t \<noteq> Title e)
          \<and> calls_of (snd (todoService_UpdateTodo rfc3339 (recording repo) tid req
                              (watched st calls out)))
              = (case update_Title req of
                   None \<Rightarrow> calls @ [CallFindByID tid]
                 | Some t \<Rightarrow>
                     if t \<noteq> [] \<and> t \<noteq> Title e
                     then calls @ [CallFindByID tid, CallUpdate (e\<lparr>Title := t\<rparr>)]
                     else calls @ [CallFindByID tid]))"
  using UpdateTodo_watched_calls [OF assms, of rfc3339 req calls out]
  by (auto simp: applyUpdates_eq split: option.splits)

text \<open>
  The theorem on the stored todo \<^verbatim>\<open>buy milk\<close>, which is completed: \<open>False\<close> overwrites
  \<open>True\<close>; \<open>True\<close> again saves nothing; \<open>True\<close> again next to a new title saves the title.
\<close>

theorem UpdateTodo_completed_witness:
  "FindByID memRepo 1 oneStore = (Inr milk, oneStore) \<and> Completed milk
   \<and> calls_of (snd (todoService_UpdateTodo FormatInt (recording memRepo) 1
                      \<lparr>update_Title = None, update_Completed = Some False\<rparr>
                      (watched oneStore [] [])))
       = [CallFindByID 1, CallUpdate (milk\<lparr>Completed := False\<rparr>)]
   \<and> calls_of (snd (todoService_UpdateTodo FormatInt (recording memRepo) 1
                      \<lparr>update_Title = None, update_Completed = Some True\<rparr>
                      (watched oneStore [] [])))
       = [CallFindByID 1]
   \<and> calls_of (snd (todoService_UpdateTodo FormatInt (recording memRepo) 1
                      \<lparr>update_Title = Some ''buy bread'', update_Completed = Some True\<rparr>
                      (watched oneStore [] [])))
       = [CallFindByID 1, CallUpdate (milk\<lparr>Title := ''buy bread''\<rparr>)]"
proof -
  have h: "FindByID memRepo 1 oneStore = (Inr milk, oneStore)"
    by (simp add: memRepo_def oneStore_def milk_def live_def)
  show ?thesis
    using h
      UpdateTodo_completed [OF h, of "\<lparr>update_Title = None, update_Completed = Some False\<rparr>"
                              FormatInt "[]" "[]"]
      UpdateTodo_completed [OF h, of "\<lparr>update_Title = None, update_Completed = Some True\<rparr>"
                              FormatInt "[]" "[]"]
      UpdateTodo_completed [OF h, of "\<lparr>update_Title = Some ''buy bread'', update_Completed = Some True\<rparr>"
                              FormatInt "[]" "[]"]
    by (simp add: milk_def applyUpdates_eq)
qed

section \<open>An update that changes nothing\<close>

text \<open>
  When the load does not change the store, an update that sets no field leaves the store
  as it is, however often it is repeated.
\<close>

lemma UpdateTodo_clean_step:
  assumes "FindByID repo tid st = (Inr e, st)" and "\<not> snd (applyUpdates e req)" and "store w = st"
  shows "fst (todoService_UpdateTodo rfc3339 repo tid req w) = Inr (toResponse rfc3339 e)
       \<and> store (snd (todoService_UpdateTodo rfc3339 repo tid req w)) = st"
  using assms UpdateTodo_loaded [of repo tid w e st rfc3339 req]
  by (simp add: set_store_def printf_def)

lemma UpdateTodo_clean_iterated:
  assumes "FindByID repo tid st = (Inr e, st)" and "\<not> snd (applyUpdates e req)" and "store w = st"
  shows "store (((\<lambda>w. snd (todoService_UpdateTodo rfc3339 repo tid req w)) ^^ n) w) = st"
proof (induction n)
  case 0
  show ?case using assms(3) by simp
next
  case (Suc n)
  show ?case
    using UpdateTodo_clean_step [OF assms(1) assms(2) Suc.IH, of rfc3339] by simp
qed

text \<open>
  Claim C5. On an entity \<open>e\<close> that the repository loads for the identifier, when no field
  ends up dirty (as when both fields of the request are absent): the only repository call
  is the \<open>FindByID\<close> of the load, \<open>Update\<close> is not called, and the response is built from
  \<open>e\<close> as loaded, its modification time included. Where the load leaves the store as it
  is, any number of such calls in a row return that same response and leave the store
  unchanged.
\<close>

theorem UpdateTodo_noop:
  assumes "FindByID repo tid st = (Inr e, st1)"
    and "update_Title req = None \<and> update_Completed req = None \<or> \<not> snd (applyUpdates e req)"
  shows "todoService_UpdateTodo rfc3339 (recording repo) tid req (watched st calls out)
           = (Inr (toResponse rfc3339 e),
              watched st1 (calls @ [CallFindByID tid])
                (out @ [''No changes detected for todo '' @ FormatUint tid @ ''\<newline>'']))
       \<and> resp_UpdatedAt (toResponse rfc3339 e) = rfc3339 (UpdatedAt e)
       \<and> (st1 = st \<longrightarrow>
            (\<forall>n. fst (todoService_UpdateTodo rfc3339 repo tid req
                        (((\<lambda>w. snd (todoService_UpdateTodo rfc3339 repo tid req w)) ^^ n)
                           \<lparr>store = st, stdout = out\<rparr>))
                   = Inr (toResponse rfc3339 e)
               \<and> store (((\<lambda>w. snd (todoService_UpdateTodo rfc3339 repo tid req w)) ^^ n)
                           \<lparr>store = st, stdout = out\<rparr>) = st))"
proof -
  have clean: "\<not> snd (applyUpdates e req)"
    using assms(2) by (auto simp: applyUpdates_eq)
  have found: "FindByID (recording repo) tid (store (watched st calls out))
                 = (Inr e, (st1, calls @ [CallFindByID tid]))"
    using assms(1) by (simp add: recording_FindByID)
  have first: "todoService_UpdateTodo rfc3339 (recording repo) tid req (watched st calls out)
           = (Inr (toResponse rfc3339 e),
              watched st1 (calls @ [CallFindByID tid])
                (out @ [''No changes detected for todo '' @ FormatUint tid @ ''\<newline>'']))"
    using UpdateTodo_loaded [OF found, of rfc3339 req] clean
    by (simp add: set_store_def printf_def)
  have again: "fst (todoService_UpdateTodo rfc3339 repo tid req
                      (((\<lambda>w. snd (todoService_UpdateTodo rfc3339 repo tid req w)) ^^ n)
                         \<lparr>store = st, stdout = out\<rparr>))
                 = Inr (toResponse rfc3339 e)
             \<and> store (((\<lambda>w. snd (todoService_UpdateTodo rfc3339 repo tid req w)) ^^ n)
                         \<lparr>store = st, stdout = out\<rparr>) = st"
    if "st1 = st" for n
  proof -
    from that assms(1) have f: "FindByID repo tid st = (Inr e, st)" by simp
    have s: "store (((\<lambda>w. snd (todoService_UpdateTodo rfc3339 repo tid req w)) ^^ n)
                         \<lparr>store = st, stdout = out\<rparr>) = st"
      by (rule UpdateTodo_clean_iterated [OF f clean]) simp
    from UpdateTodo_clean_step [OF f clean s] s show ?thesis by simp
  qed
  from first again show ?thesis
    by (simp add: toResponse_def)
qed

text \<open>
  The theorem on the stored todo \<^verbatim>\<open>buy milk\<close> and the request without fields, once watched
  and once repeated.
\<close>

theorem UpdateTodo_noop_witness:
  "FindByID memRepo 1 oneStore = (Inr milk, oneStore)
   \<and> todoService_UpdateTodo FormatInt (recording memRepo) 1
        \<lparr>update_Title = None, update_Completed = None\<rparr> (watched oneStore [] [])
       = (Inr \<lparr>resp_ID = 1, resp_Title = ''buy milk'', resp_Completed = True, resp_UserID = 0,
               resp_CreatedAt = ''1'', resp_UpdatedAt = ''1''\<rparr>,
          watched oneStore [CallFindByID 1] [''No changes detected for todo 1\<newline>''])
   \<and> fst (todoService_UpdateTodo FormatInt memRepo 1
             \<lparr>update_Title = None, update_Completed = None\<rparr>
             (snd (todoService_UpdateTodo FormatInt memRepo 1
                     \<lparr>update_Title = None, update_Completed = None\<rparr>
                     \<lparr>store = oneStore, stdout = []\<rparr>)))
       = Inr \<lparr>resp_ID = 1, resp_Title = ''buy milk'', resp_Completed = True, resp_UserID = 0,
              resp_CreatedAt = ''1'', resp_UpdatedAt = ''1''\<rparr>"
proof -
  have h: "FindByID memRepo 1 oneStore = (Inr milk, oneStore)"
    by (simp add: memRepo_def oneStore_def milk_def live_def)
  have a: "update_Title \<lparr>update_Title = None, update_Completed = None\<rparr> = None
           \<and> update_Completed \<lparr>update_Title = None, update_Completed = None\<rparr> = None
         \<or> \<not> snd (applyUpdates milk \<lparr>update_Title = None, update_Completed = None\<rparr>)"
    by simp
  have t: "toResponse FormatInt milk
             = \<lparr>resp_ID = 1, resp_Title = ''buy milk'', resp_Completed = True, resp_UserID = 0,
                resp_CreatedAt = ''1'', resp_UpdatedAt = ''1''\<rparr>"
    by (simp add: toResponse_def milk_def FormatInt_def FormatUint.simps digit_def)
  have d: "FormatUint 1 = ''1''"
    by (simp add: FormatUint.simps digit_def)
  from UpdateTodo_noop [OF h a, of FormatInt "[]" "[]"] have
    "todoService_UpdateTodo FormatInt (recording memRepo) 1
        \<lparr>update_Title = None, update_Completed = None\<rparr> (watched oneStore [] [])
       = (Inr (toResponse FormatInt milk),
          watched oneStore [CallFindByID 1] [''No changes detected for todo 1\<newline>''])"
    and "\<forall>n. fst (todoService_UpdateTodo FormatInt memRepo 1
                      \<lparr>update_Title = None, update_Completed = None\<rparr>
                      (((\<lambda>w. snd (todoService_UpdateTodo FormatInt memRepo 1
                                     \<lparr>update_Title = None, update_Completed = None\<rparr> w)) ^^ n)
                         \<lparr>store = oneStore, stdout = []\<rparr>))
                 = Inr (toResponse FormatInt milk)"
    using d by simp_all
  from this(1) this(2) [rule_format, of 1] h t show ?thesis
    by simp
qed

section \<open>Deletion after an existence check\<close>

text \<open>
  The two ways \<open>DeleteTodo\<close> ends that matter here: the load reports that the record is
  not there, or the operation succeeds, which takes a successful load and a successful
  \<open>Delete\<close>. In the in-memory repository a deleted identifier is no longer found.
\<close>

lemma DeleteTodo_missing:
  assumes "FindByID repo tid (store w) = (Inl err, st1)" and "errors_Is err ErrRecordNotFound"
  shows "todoService_DeleteTodo repo tid w
           = (Some (ErrorString (''todo with ID '' @ FormatUint tid @ '' not found for deletion'')),
              set_store st1 w)"
  using assms by (simp add: todoService_DeleteTodo_def)

lemma DeleteTodo_succeeds:
  assumes "todoService_DeleteTodo repo tid w = (None, w1)"
  shows "\<exists>found st1. FindByID repo tid (store w) = (Inr found, st1)
                    \<and> Delete repo tid st1 = (None, store w1)"
proof (cases "FindByID repo tid (store w)")
  case (Pair r st1)
  show ?thesis
  proof (cases r)
    case (Inl err)
    have "fst (todoService_DeleteTodo repo tid w) \<noteq> None"
      using Pair Inl by (simp add: todoService_DeleteTodo_def)
    with assms show ?thesis by simp
  next
    case (Inr found)
    obtain d st2 where del: "Delete repo tid st1 = (d, st2)"
      by (cases "Delete repo tid st1")
    have run: "todoService_DeleteTodo repo tid w =
                 (case d of
                    Some err \<Rightarrow>
                      (Some (ErrorString ''failed to delete todo item''),
                       printf (''Error deleting todo '' @ FormatUint tid @ '' from repository: ''
                               @ Error err @ ''\<newline>'') (set_store st2 w))
                  | None \<Rightarrow> (None, set_store st2 w))"
      using Pair Inr del by (simp add: todoService_DeleteTodo_def)
    show ?thesis
    proof (cases d)
      case None
      with run assms have "w1 = set_store st2 w" by simp
      with Pair Inr del None show ?thesis by (simp add: set_store_def)
    next
      case (Some err)
      with run assms show ?thesis by simp
    qed
  qed
qed

lemma find_marked:
  "find (\<lambda>todo. ID todo = tid \<and> live todo)
        (map (\<lambda>row. if ID row = tid \<and> live row then row\<lparr>DeletedAt := Some t\<rparr> else row) xs) = None"
  by (induction xs) (simp_all add: live_def)

lemma memRepo_Delete_then_FindByID:
  "Delete memRepo tid st = (None, st') \<Longrightarrow> FindByID memRepo tid st' = (Inl ErrRecordNotFound, st')"
proof -
  assume "Delete memRepo tid st = (None, st')"
  then have "rows st' = map (\<lambda>row. if ID row = tid \<and> live row
                               then row\<lparr>DeletedAt := Some (clock st)\<rparr> else row) (rows st)"
    by (auto simp: memRepo_def)
  then show ?thesis
    by (simp add: memRepo_def find_marked)
qed

text \<open>
  Claim C6. \<open>DeleteTodo\<close> calls \<open>FindByID\<close> before anything else. When that call reports
  that no record matches (an error that is \<^verbatim>\<open>gorm.ErrRecordNotFound\<close>), the operation
  returns the not-found error naming the identifier, and the only repository call it made
  is that \<open>FindByID\<close>: \<open>Delete\<close> is not invoked. So deleting an identifier that does not
  exist yields the not-found error; and over a repository in which an identifier is no
  longer found once \<open>Delete\<close> succeeded on it, a second \<open>DeleteTodo\<close> after a successful
  one yields the not-found error.
\<close>

theorem DeleteTodo_existence_check:
  "(\<forall>err st1. FindByID repo tid st = (Inl err, st1) \<and> errors_Is err ErrRecordNotFound \<longrightarrow>
      todoService_DeleteTodo (recording repo) tid (watched st calls out)
        = (Some (ErrorString (''todo with ID '' @ FormatUint tid @ '' not found for deletion'')),
           watched st1 (calls @ [CallFindByID tid]) out))
   \<and> take (Suc (length calls))
        (calls_of (snd (todoService_DeleteTodo (recording repo) tid (watched st calls out))))
       = calls @ [CallFindByID tid]
   \<and> ((\<forall>s s'. Delete repo tid s = (None, s') \<longrightarrow>
                 (\<exists>s''. FindByID repo tid s' = (Inl ErrRecordNotFound, s''))) \<longrightarrow>
       (\<forall>w w1. todoService_DeleteTodo repo tid w = (None, w1) \<longrightarrow>
          fst (todoService_DeleteTodo repo tid w1)
            = Some (ErrorString (''todo with ID '' @ FormatUint tid @ '' not found for deletion''))))"
proof (intro conjI allI impI)
  fix err st1
  assume a: "FindByID repo tid st = (Inl err, st1) \<and> errors_Is err ErrRecordNotFound"
  then have "FindByID (recording repo) tid (store (watched st calls out))
               = (Inl err, (st1, calls @ [CallFindByID tid]))"
    by (simp add: recording_FindByID)
  from DeleteTodo_missing [OF this] a
  show "todoService_DeleteTodo (recording repo) tid (watched st calls out)
        = (Some (ErrorString (''todo with ID '' @ FormatUint tid @ '' not found for deletion'')),
           watched st1 (calls @ [CallFindByID tid]) out)"
    by (simp add: set_store_def)
next
  show "take (Suc (length calls))
        (calls_of (snd (todoService_DeleteTodo (recording repo) tid (watched st calls out))))
       = calls @ [CallFindByID tid]"
    by (simp add: todoService_DeleteTodo_def recording_FindByID recording_Delete set_store_def
          printf_def split: prod.splits sum.splits option.splits)
next
  fix w w1
  assume contract: "\<forall>s s'. Delete repo tid s = (None, s') \<longrightarrow>
                 (\<exists>s''. FindByID repo tid s' = (Inl ErrRecordNotFound, s''))"
    and first: "todoService_DeleteTodo repo tid w = (None, w1)"
  from DeleteTodo_succeeds [OF first] contract
  obtain s'' where "FindByID repo tid (store w1) = (Inl ErrRecordNotFound, s'')"
    by blast
  from DeleteTodo_missing [OF this]
  show "fst (todoService_DeleteTodo repo tid w1)
            = Some (ErrorString (''todo with ID '' @ FormatUint tid @ '' not found for deletion''))"
    by simp
qed

text \<open>
  The theorem over the in-memory repository with the one todo 1: deleting 5 is not found
  and calls \<open>FindByID\<close> only; deleting 1 calls \<open>FindByID\<close> and \<open>Delete\<close> and succeeds;
  deleting 1 again is not found.
\<close>

theorem DeleteTodo_existence_check_witness:
  "todoService_DeleteTodo (recording memRepo) 5 (watched oneStore [] [])
     = (Some (ErrorString ''todo with ID 5 not found for deletion''),
        watched oneStore [CallFindByID 5] [])
   \<and> calls_of (snd (todoService_DeleteTodo (recording memRepo) 1 (watched oneStore [] [])))
     = [CallFindByID 1, CallDelete 1]
   \<and> fst (todoService_DeleteTodo memRepo 1 \<lparr>store = oneStore, stdout = []\<rparr>) = None
   \<and> fst (todoService_DeleteTodo memRepo 1
            (snd (todoService_DeleteTodo memRepo 1 \<lparr>store = oneStore, stdout = []\<rparr>)))
     = Some (ErrorString ''todo with ID 1 not found for deletion'')"
proof -
  have missing: "FindByID memRepo 5 oneStore = (Inl ErrRecordNotFound, oneStore)"
    by (simp add: memRepo_def oneStore_def milk_def live_def)
  have contract: "\<exists>s''. FindByID memRepo 1 s' = (Inl ErrRecordNotFound, s'')"
    if "Delete memRepo 1 s = (None, s')" for s s'
    using memRepo_Delete_then_FindByID [OF that] by simp
  have first0: "fst (todoService_DeleteTodo memRepo 1 \<lparr>store = oneStore, stdout = []\<rparr>) = None"
    by (simp add: todoService_DeleteTodo_def memRepo_def oneStore_def milk_def live_def)
  then have first: "todoService_DeleteTodo memRepo 1 \<lparr>store = oneStore, stdout = []\<rparr>
                 = (None, snd (todoService_DeleteTodo memRepo 1 \<lparr>store = oneStore, stdout = []\<rparr>))"
    by (simp add: prod_eq_iff)
  have watched1: "calls_of (snd (todoService_DeleteTodo (recording memRepo) 1 (watched oneStore [] [])))
                    = [CallFindByID 1, CallDelete 1]"
    by (simp add: todoService_DeleteTodo_def recording_FindByID recording_Delete memRepo_def
          oneStore_def milk_def live_def set_store_def)
  have d5: "FormatUint 5 = ''5''" and d1: "FormatUint 1 = ''1''"
    by (simp_all add: FormatUint.simps digit_def)
  have c1: "todoService_DeleteTodo (recording memRepo) 5 (watched oneStore [] [])
     = (Some (ErrorString ''todo with ID 5 not found for deletion''),
        watched oneStore [CallFindByID 5] [])"
    using DeleteTodo_existence_check [of memRepo 5 oneStore "[]" "[]"] missing d5 by simp
  have c2: "fst (todoService_DeleteTodo memRepo 1
            (snd (todoService_DeleteTodo memRepo 1 \<lparr>store = oneStore, stdout = []\<rparr>)))
     = Some (ErrorString ''todo with ID 1 not found for deletion'')"
    using DeleteTodo_existence_check
            [of memRepo 1 oneStore "[]" "[]", THEN conjunct2, THEN conjunct2, rule_format,
             OF contract first] d1
    by simp
  from c1 c2 first0 watched1 show ?thesis by simp
qed

section \<open>The path identifier\<close>

text \<open>
  The service behind the handlers is watched the way the repository is. A text with a
  byte that is no decimal digit does not parse.
\<close>

lemma recordingService_GetTodoByID:
  "GetTodoByID (recordingService svc) tid (w, calls) =
     (fst (GetTodoByID svc tid w), (snd (GetTodoByID svc tid w), calls @ [CallGetTodoByID tid]))"
  by (simp add: recordingService_def split: prod.splits)

lemma recordingService_UpdateTodo:
  "UpdateTodo (recordingService svc) tid req (w, calls) =
     (fst (UpdateTodo svc tid req w),
      (snd (UpdateTodo svc tid req w), calls @ [CallUpdateTodo tid req]))"
  by (simp add: recordingService_def split: prod.splits)

lemma recordingService_DeleteTodo:
  "DeleteTodo (recordingService svc) tid (w, calls) =
     (fst (DeleteTodo svc tid w), (snd (DeleteTodo svc tid w), calls @ [CallDeleteTodo tid]))"
  by (simp add: recordingService_def split: prod.splits)

lemma parse_digits_nondigit:
  "\<exists>c\<in>set s. \<not> isDigit c \<Longrightarrow> \<exists>err. parse_digits n s = Inl err"
  by (induction s arbitrary: n) auto

lemma ParseUint_nondigit:
  "s = [] \<or> (\<exists>c\<in>set s. \<not> isDigit c) \<Longrightarrow> \<exists>err. ParseUint s = Inl err"
  using parse_digits_nondigit [of s 0] by (auto simp: ParseUint_def)

lemma world_reply: "world (reply ls w r) = w"
  by (simp add: reply_def)

text \<open>
  Claim C7. The handlers of \<^verbatim>\<open>GET\<close>, \<^verbatim>\<open>PUT\<close> and \<^verbatim>\<open>DELETE /todos/{id}\<close> reject a path
  identifier that is empty, holds a byte that is no decimal digit, parses to zero or does
  not parse at all: the response is 400 with the message \<^verbatim>\<open>Invalid todo ID provided\<close>,
  nothing is logged, and the world of the service is as before, its list of calls
  included, so no service operation was invoked. Only an identifier that parses to a
  positive number reaches the service, which is then called with that number.
\<close>

theorem path_id_validation:
  "(idStr = [] \<or> (\<exists>c\<in>set idStr. \<not> isDigit c) \<or> ParseUint idStr = Inr 0
      \<or> (\<exists>err. ParseUint idStr = Inl err) \<longrightarrow>
      getTodoByIDHandler \<lparr>port = p, todoService = recordingService svc\<rparr> idStr (w, calls)
        = \<lparr>response = \<lparr>status = 400, content_type = Some ''application/json; charset=utf-8'',
                        body = Some (JObject [(''error'', JString ''Invalid todo ID provided'')])\<rparr>,
           logged = [], world = (w, calls)\<rparr>
    \<and> updateTodoHandler \<lparr>port = p, todoService = recordingService svc\<rparr> idStr decoded (w, calls)
        = \<lparr>response = \<lparr>status = 400, content_type = Some ''application/json; charset=utf-8'',
                        body = Some (JObject [(''error'', JString ''Invalid todo ID provided'')])\<rparr>,
           logged = [], world = (w, calls)\<rparr>
    \<and> deleteTodoHandler \<lparr>port = p, todoService = recordingService svc\<rparr> idStr (w, calls)
        = \<lparr>response = \<lparr>status = 400, content_type = Some ''application/json; charset=utf-8'',
                        body = Some (JObject [(''error'', JString ''Invalid todo ID provided'')])\<rparr>,
           logged = [], world = (w, calls)\<rparr>)
   \<and> (\<forall>n. ParseUint idStr = Inr n \<and> 0 < n \<longrightarrow>
        snd (world (getTodoByIDHandler \<lparr>port = p, todoService = recordingService svc\<rparr> idStr
                      (w, calls))) = calls @ [CallGetTodoByID n]
      \<and> snd (world (updateTodoHandler \<lparr>port = p, todoService = recordingService svc\<rparr> idStr
                      (Inr req) (w, calls))) = calls @ [CallUpdateTodo n req]
      \<and> snd (world (deleteTodoHandler \<lparr>port = p, todoService = recordingService svc\<rparr> idStr
                      (w, calls))) = calls @ [CallDeleteTodo n])"
proof (intro conjI impI allI)
  assume "idStr = [] \<or> (\<exists>c\<in>set idStr. \<not> isDigit c) \<or> ParseUint idStr = Inr 0
      \<or> (\<exists>err. ParseUint idStr = Inl err)"
  then have bad: "ParseUint idStr = Inr 0 \<or> (\<exists>err. ParseUint idStr = Inl err)"
    using ParseUint_nondigit [of idStr] by blast
  show "getTodoByIDHandler \<lparr>port = p, todoService = recordingService svc\<rparr> idStr (w, calls)
        = \<lparr>response = \<lparr>status = 400, content_type = Some ''application/json; charset=utf-8'',
                        body = Some (JObject [(''error'', JString ''Invalid todo ID provided'')])\<rparr>,
           logged = [], world = (w, calls)\<rparr>"
    using bad by (auto simp: getTodoByIDHandler_def reply_def respondWithError_def respondWithJSON_def)
  show "updateTodoHandler \<lparr>port = p, todoService = recordingService svc\<rparr> idStr decoded (w, calls)
        = \<lparr>response = \<lparr>status = 400, content_type = Some ''application/json; charset=utf-8'',
                        body = Some (JObject [(''error'', JString ''Invalid todo ID provided'')])\<rparr>,
           logged = [], world = (w, calls)\<rparr>"
    using bad by (auto simp: updateTodoHandler_def reply_def respondWithError_def respondWithJSON_def)
  show "deleteTodoHandler \<lparr>port = p, todoService = recordingService svc\<rparr> idStr (w, calls)
        = \<lparr>response = \<lparr>status = 400, content_type = Some ''application/json; charset=utf-8'',
                        body = Some (JObject [(''error'', JString ''Invalid todo ID provided'')])\<rparr>,
           logged = [], world = (w, calls)\<rparr>"
    using bad by (auto simp: deleteTodoHandler_def reply_def respondWithError_def respondWithJSON_def)
next
  fix n
  assume ok: "ParseUint idStr = Inr n \<and> 0 < n"
  show "snd (world (getTodoByIDHandler \<lparr>port = p, todoService = recordingService svc\<rparr> idStr
                      (w, calls))) = calls @ [CallGetTodoByID n]"
    using ok
    by (simp add: getTodoByIDHandler_def recordingService_GetTodoByID world_reply
          split: prod.splits sum.splits)
  show "snd (world (updateTodoHandler \<lparr>port = p, todoService = recordingService svc\<rparr> idStr
                      (Inr req) (w, calls))) = calls @ [CallUpdateTodo n req]"
    using ok
    by (simp add: updateTodoHandler_def recordingService_UpdateTodo world_reply
          split: prod.splits sum.splits)
  show "snd (world (deleteTodoHandler \<lparr>port = p, todoService = recordingService svc\<rparr> idStr
                      (w, calls))) = calls @ [CallDeleteTodo n]"
    using ok
    by (simp add: deleteTodoHandler_def recordingService_DeleteTodo world_reply
          split: prod.splits option.splits)
qed

text \<open>
  The theorem at the identifiers \<^verbatim>\<open>0\<close>, \<^verbatim>\<open>abc\<close> and \<^verbatim>\<open>-1\<close>, which are rejected, and at
  \<^verbatim>\<open>1\<close>, which reaches the service.
\<close>

theorem path_id_validation_witness:
  "getTodoByIDHandler
       \<lparr>port = 8080, todoService = recordingService (NewTodoService FormatInt memRepo)\<rparr> ''0''
       (\<lparr>store = oneStore, stdout = []\<rparr>, [])
     = \<lparr>response = \<lparr>status = 400, content_type = Some ''application/json; charset=utf-8'',
                     body = Some (JObject [(''error'', JString ''Invalid todo ID provided'')])\<rparr>,
        logged = [], world = (\<lparr>store = oneStore, stdout = []\<rparr>, [])\<rparr>
   \<and> deleteTodoHandler
       \<lparr>port = 8080, todoService = recordingService (NewTodoService FormatInt memRepo)\<rparr> ''abc''
       (\<lparr>store = oneStore, stdout = []\<rparr>, [])
     = \<lparr>response = \<lparr>status = 400, content_type = Some ''application/json; charset=utf-8'',
                     body = Some (JObject [(''error'', JString ''Invalid todo ID provided'')])\<rparr>,
        logged = [], world = (\<lparr>store = oneStore, stdout = []\<rparr>, [])\<rparr>
   \<and> updateTodoHandler
       \<lparr>port = 8080, todoService = recordingService (NewTodoService FormatInt memRepo)\<rparr> ''-1''
       (Inr \<lparr>update_Title = None, update_Completed = Some False\<rparr>)
       (\<lparr>store = oneStore, stdout = []\<rparr>, [])
     = \<lparr>response = \<lparr>status = 400, content_type = Some ''application/json; charset=utf-8'',
                     body = Some (JObject [(''error'', JString ''Invalid todo ID provided'')])\<rparr>,
        logged = [], world = (\<lparr>store = oneStore, stdout = []\<rparr>, [])\<rparr>
   \<and> ParseUint ''1'' = Inr 1
   \<and> snd (world (getTodoByIDHandler
                   \<lparr>port = 8080, todoService = recordingService (NewTodoService FormatInt memRepo)\<rparr>
                   ''1'' (\<lparr>store = oneStore, stdout = []\<rparr>, [])))
     = [CallGetTodoByID 1]"
proof -
  have zero: "ParseUint ''0'' = Inr 0" and one: "ParseUint ''1'' = Inr 1"
    by (simp_all add: ParseUint_def isDigit_def maxUint64_def)
  have letters: "\<exists>c\<in>set ''abc''. \<not> isDigit c" and sign: "\<exists>c\<in>set ''-1''. \<not> isDigit c"
    by (simp_all add: isDigit_def)
  show ?thesis
    using zero one letters sign
      path_id_validation [where idStr = "''0''" and p = 8080
        and svc = "NewTodoService FormatInt memRepo"
        and w = "\<lparr>store = oneStore, stdout = []\<rparr>" and calls = "[]"]
      path_id_validation [where idStr = "''abc''" and p = 8080
        and svc = "NewTodoService FormatInt memRepo"
        and w = "\<lparr>store = oneStore, stdout = []\<rparr>" and calls = "[]"]
      path_id_validation [where idStr = "''-1''" and p = 8080
        and svc = "NewTodoService FormatInt memRepo"
        and w = "\<lparr>store = oneStore, stdout = []\<rparr>" and calls = "[]"
        and decoded = "Inr \<lparr>update_Title = None, update_Completed = Some False\<rparr>"]
      path_id_validation [where idStr = "''1''" and p = 8080
        and svc = "NewTodoService FormatInt memRepo"
        and w = "\<lparr>store = oneStore, stdout = []\<rparr>" and calls = "[]"]
    by simp
qed

section \<open>Listing\<close>

text \<open>
  Claim C8. When the repository's \<open>GetAll\<close> returns a list of entities without an error,
  \<open>GetAllTodos\<close> returns the list of their responses, one for each entity and in the same
  order, and \<^verbatim>\<open>GET /todos\<close> answers 200 with the JSON array of them. For the empty list
  that is the empty sequence and the empty JSON array, not an error.
\<close>

theorem GetAllTodos_maps_each:
  assumes "GetAll repo st = (Inr todos, st1)"
  shows "todoService_GetAllTodos rfc3339 repo \<lparr>store = st, stdout = out\<rparr>
           = (Inr (map (toResponse rfc3339) todos), \<lparr>store = st1, stdout = out\<rparr>)
       \<and> getAllTodosHandler \<lparr>port = p, todoService = NewTodoService rfc3339 repo\<rparr>
           \<lparr>store = st, stdout = out\<rparr>
           = \<lparr>response =
                \<lparr>status = 200, content_type = Some ''application/json; charset=utf-8'',
                 body = Some (JArray (map (\<lambda>todo. json_of_response (toResponse rfc3339 todo)) todos))\<rparr>,
              logged = [], world = \<lparr>store = st1, stdout = out\<rparr>\<rparr>
       \<and> (todos = [] \<longrightarrow>
            fst (todoService_GetAllTodos rfc3339 repo \<lparr>store = st, stdout = out\<rparr>) = Inr []
          \<and> response (getAllTodosHandler \<lparr>port = p, todoService = NewTodoService rfc3339 repo\<rparr>
                         \<lparr>store = st, stdout = out\<rparr>)
              = \<lparr>status = 200, content_type = Some ''application/json; charset=utf-8'',
                 body = Some (JArray [])\<rparr>)"
proof -
  have svc: "todoService_GetAllTodos rfc3339 repo \<lparr>store = st, stdout = out\<rparr>
           = (Inr (map (toResponse rfc3339) todos), \<lparr>store = st1, stdout = out\<rparr>)"
    using assms by (simp add: todoService_GetAllTodos_def set_store_def)
  then have hdl: "getAllTodosHandler \<lparr>port = p, todoService = NewTodoService rfc3339 repo\<rparr>
           \<lparr>store = st, stdout = out\<rparr>
           = \<lparr>response =
                \<lparr>status = 200, content_type = Some ''application/json; charset=utf-8'',
                 body = Some (JArray (map (\<lambda>todo. json_of_response (toResponse rfc3339 todo)) todos))\<rparr>,
              logged = [], world = \<lparr>store = st1, stdout = out\<rparr>\<rparr>"
    by (simp add: getAllTodosHandler_def NewTodoService_def reply_def respondWithJSON_def comp_def)
  from svc hdl show ?thesis by simp
qed

text \<open>The theorem over the in-memory repository with no rows.\<close>

theorem GetAllTodos_maps_each_witness:
  "GetAll memRepo emptyStore = (Inr [], emptyStore)
   \<and> todoService_GetAllTodos FormatInt memRepo \<lparr>store = emptyStore, stdout = []\<rparr>
       = (Inr [], \<lparr>store = emptyStore, stdout = []\<rparr>)
   \<and> getAllTodosHandler \<lparr>port = 8080, todoService = NewTodoService FormatInt memRepo\<rparr>
        \<lparr>store = emptyStore, stdout = []\<rparr>
       = \<lparr>response = \<lparr>status = 200, content_type = Some ''application/json; charset=utf-8'',
                       body = Some (JArray [])\<rparr>,
          logged = [], world = \<lparr>store = emptyStore, stdout = []\<rparr>\<rparr>"
proof -
  have h: "GetAll memRepo emptyStore = (Inr [], emptyStore)"
    by (simp add: memRepo_def emptyStore_def)
  from h GetAllTodos_maps_each [OF h, of FormatInt "[]" 8080] show ?thesis
    by simp
qed

section \<open>Store failures during creation\<close>

text \<open>
  Claim C9. Whatever error the repository's \<open>Create\<close> returns, \<open>CreateTodo\<close> returns the
  one error \<^verbatim>\<open>failed to create todo item\<close>: two failing creations, on any two
  repositories, requests and store errors, give the caller the same error value, which
  is a constant of the program and no function of the store error. The text of the store
  error goes to the line the service prints, and the handler answers 500 with a fixed
  message of its own.
\<close>

theorem CreateTodo_generic_failure:
  assumes "create_Title req1 \<noteq> []" and "create_Title req2 \<noteq> []"
    and "fst (fst (Create repo1 (newTodo req1) (store w1))) = Some err1"
    and "fst (fst (Create repo2 (newTodo req2) (store w2))) = Some err2"
  shows "fst (todoService_CreateTodo rfc3339 repo1 req1 w1)
           = Inl (ErrorString ''failed to create todo item'')
       \<and> fst (todoService_CreateTodo rfc3339 repo2 req2 w2)
           = fst (todoService_CreateTodo rfc3339 repo1 req1 w1)
       \<and> stdout (snd (todoService_CreateTodo rfc3339 repo1 req1 w1))
           = stdout w1 @ [''Error creating todo in repository: '' @ Error err1 @ ''\<newline>'']
       \<and> response (createTodoHandler \<lparr>port = p, todoService = NewTodoService rfc3339 repo1\<rparr>
                      (Inr req1) w1)
           = \<lparr>status = 500, content_type = Some ''application/json; charset=utf-8'',
              body = Some (JObject [(''error'', JString ''Failed to create todo'')])\<rparr>"
  using assms
  by (auto simp: todoService_CreateTodo_def createTodoHandler_def NewTodoService_def reply_def
        respondWithError_def respondWithJSON_def set_store_def printf_def
        split: prod.splits option.splits)

text \<open>The theorem at two repositories that fail with different errors.\<close>

theorem CreateTodo_generic_failure_witness:
  "fst (todoService_CreateTodo FormatInt (failingRepo (ErrorString ''connection refused''))
          \<lparr>create_Title = ''buy milk'', create_UserID = 0\<rparr> \<lparr>store = (), stdout = []\<rparr>)
     = Inl (ErrorString ''failed to create todo item'')
   \<and> fst (todoService_CreateTodo FormatInt (failingRepo (ErrorString ''disk full''))
          \<lparr>create_Title = ''buy milk'', create_UserID = 0\<rparr> \<lparr>store = (), stdout = []\<rparr>)
     = Inl (ErrorString ''failed to create todo item'')
   \<and> stdout (snd (todoService_CreateTodo FormatInt (failingRepo (ErrorString ''connection refused''))
          \<lparr>create_Title = ''buy milk'', create_UserID = 0\<rparr> \<lparr>store = (), stdout = []\<rparr>))
     = [''Error creating todo in repository: connection refused\<newline>'']"
proof -
  have t: "create_Title \<lparr>create_Title = ''buy milk'', create_UserID = 0\<rparr> \<noteq> []"
    by simp
  have f1: "fst (fst (Create (failingRepo (ErrorString ''connection refused''))
                        (newTodo \<lparr>create_Title = ''buy milk'', create_UserID = 0\<rparr>)
                        (store \<lparr>store = (), stdout = []\<rparr>)))
              = Some (ErrorString ''connection refused'')"
    by (simp add: failingRepo_def)
  have f2: "fst (fst (Create (failingRepo (ErrorString ''disk full''))
                        (newTodo \<lparr>create_Title = ''buy milk'', create_UserID = 0\<rparr>)
                        (store \<lparr>store = (), stdout = []\<rparr>)))
              = Some (ErrorString ''disk full'')"
    by (simp add: failingRepo_def)
  from CreateTodo_generic_failure [OF t t f1 f2, of FormatInt 8080] show ?thesis
    by simp
qed

section \<open>The not-found channel between service and transport\<close>

text \<open>
  \<open>HasPrefix\<close> and \<open>Contains\<close> are the prefix and the substring relation. The message of
  each not-found error of the service has \<^verbatim>\<open>not found\<close> in it, whatever the digits of
  the identifier.
\<close>

lemma HasPrefix_iff: "HasPrefix s p \<longleftrightarrow> (\<exists>b. s = p @ b)"
  by (induction s p rule: HasPrefix.induct) auto

lemma Contains_iff: "Contains s sub \<longleftrightarrow> (\<exists>a b. s = a @ sub @ b)"
proof (induction s)
  case Nil
  then show ?case by auto
next
  case (Cons c cs)
  show ?case
  proof
    assume "Contains (c # cs) sub"
    then consider "HasPrefix (c # cs) sub" | "Contains cs sub" by auto
    then show "\<exists>a b. c # cs = a @ sub @ b"
    proof cases
      case 1
      then obtain b where "c # cs = sub @ b" by (auto simp: HasPrefix_iff)
      then have "c # cs = [] @ sub @ b" by simp
      then show ?thesis by blast
    next
      case 2
      with Cons.IH obtain a b where "cs = a @ sub @ b" by blast
      then have "c # cs = (c # a) @ sub @ b" by simp
      then show ?thesis by blast
    qed
  next
    assume "\<exists>a b. c # cs = a @ sub @ b"
    then obtain a b where ab: "c # cs = a @ sub @ b" by blast
    show "Contains (c # cs) sub"
    proof (cases a)
      case Nil
      with ab have "HasPrefix (c # cs) sub" by (auto simp: HasPrefix_iff)
      then show ?thesis by simp
    next
      case (Cons x xs)
      with ab have "cs = xs @ sub @ b" by simp
      with Cons.IH have "Contains cs sub" by blast
      then show ?thesis by simp
    qed
  qed
qed

lemma not_found_message:
  "Contains (''todo with ID '' @ d @ '' not found'' @ rest) ''not found''"
proof -
  have "''todo with ID '' @ d @ '' not found'' @ rest
          = (''todo with ID '' @ d @ '' '') @ ''not found'' @ rest"
    by simp
  then show ?thesis
    unfolding Contains_iff by blast
qed

text \<open>
  For each of the three operations that begin with a load: the error it returns mentions
  \<^verbatim>\<open>not found\<close> exactly when that load reported that the record is not there.
\<close>

lemma GetTodoByID_error:
  assumes "fst (todoService_GetTodoByID rfc3339 repo tid w) = Inl err"
  shows "Contains (Error err) ''not found''
           = loadNotFound repo tid w"
proof (cases "FindByID repo tid (store w)")
  case (Pair r st1)
  show ?thesis
  proof (cases r)
    case (Inl e)
    show ?thesis
    proof (cases "errors_Is e ErrRecordNotFound")
      case True
      with Pair Inl assms have "Error err = ''todo with ID '' @ FormatUint tid @ '' not found'' @ []"
        by (auto simp: todoService_GetTodoByID_def)
      with True Pair Inl show ?thesis
        using not_found_message [of "FormatUint tid" "[]"] by (simp add: loadNotFound_def)
    next
      case False
      with Pair Inl assms have "Error err = ''failed to retrieve todo item''"
        by (auto simp: todoService_GetTodoByID_def)
      with False Pair Inl show ?thesis by (simp add: loadNotFound_def)
    qed
  next
    case (Inr todo)
    with Pair assms show ?thesis
      by (simp add: todoService_GetTodoByID_def loadNotFound_def)
  qed
qed

lemma UpdateTodo_error:
  assumes "fst (todoService_UpdateTodo rfc3339 repo tid req w) = Inl err"
  shows "Contains (Error err) ''not found''
           = loadNotFound repo tid w"
proof (cases "FindByID repo tid (store w)")
  case (Pair r st1)
  show ?thesis
  proof (cases r)
    case (Inl e)
    show ?thesis
    proof (cases "errors_Is e ErrRecordNotFound")
      case True
      with Pair Inl assms
      have "Error err = ''todo with ID '' @ FormatUint tid @ '' not found'' @ '' for update''"
        by (auto simp: todoService_UpdateTodo_def)
      with True Pair Inl show ?thesis
        using not_found_message [of "FormatUint tid" "'' for update''"] by (simp add: loadNotFound_def)
    next
      case False
      with Pair Inl assms have "Error err = ''failed to retrieve todo item for update''"
        by (auto simp: todoService_UpdateTodo_def)
      with False Pair Inl show ?thesis by (simp add: loadNotFound_def)
    qed
  next
    case (Inr e)
    with Pair have "FindByID repo tid (store w) = (Inr e, st1)" by simp
    from UpdateTodo_loaded [OF this, of rfc3339 req] assms
    have "Error err = ''failed to update todo item''"
      by (auto split: if_splits prod.splits option.splits)
    with Pair Inr show ?thesis by (simp add: loadNotFound_def)
  qed
qed

lemma DeleteTodo_error:
  assumes "fst (todoService_DeleteTodo repo tid w) = Some err"
  shows "Contains (Error err) ''not found''
           = loadNotFound repo tid w"
proof (cases "FindByID repo tid (store w)")
  case (Pair r st1)
  show ?thesis
  proof (cases r)
    case (Inl e)
    show ?thesis
    proof (cases "errors_Is e ErrRecordNotFound")
      case True
      with Pair Inl assms
      have "Error err = ''todo with ID '' @ FormatUint tid @ '' not found'' @ '' for deletion''"
        by (auto simp: todoService_DeleteTodo_def)
      with True Pair Inl show ?thesis
        using not_found_message [of "FormatUint tid" "'' for deletion''"] by (simp add: loadNotFound_def)
    next
      case False
      with Pair Inl assms have "Error err = ''failed to check todo item before deletion''"
        by (auto simp: todoService_DeleteTodo_def)
      with False Pair Inl show ?thesis by (simp add: loadNotFound_def)
    qed
  next
    case (Inr e)
    with Pair assms have "Error err = ''failed to delete todo item''"
      by (auto simp: todoService_DeleteTodo_def split: prod.splits option.splits)
    with Pair Inr show ?thesis by (simp add: loadNotFound_def)
  qed
qed


lemma status_respondWithError: "status (fst (respondWithError code message)) = code"
  by (simp add: respondWithError_def respondWithJSON_def)

lemma response_reply: "response (reply ls w r) = fst r"
  by (simp add: reply_def)

text \<open>
  Claim C10. For a path identifier that parses to a positive number: an error that
  \<open>GetTodoByID\<close>, \<open>UpdateTodo\<close> or \<open>DeleteTodo\<close> returns has \<^verbatim>\<open>not found\<close> in its message
  exactly when the repository reported the record-not-found condition, which is the
  \<open>FindByID\<close> the operation begins with returning \<^verbatim>\<open>gorm.ErrRecordNotFound\<close>. Every
  error returned for any other failure has a message without that substring. So the
  substring test of the handlers answers 404 exactly for the not-found case and 500 for
  every other service error.
\<close>

theorem not_found_channel:
  assumes "ParseUint idStr = Inr tid" and "0 < tid"
  shows "(\<forall>err. fst (todoService_GetTodoByID rfc3339 repo tid w) = Inl err \<longrightarrow>
            Contains (Error err) ''not found'' = loadNotFound repo tid w
          \<and> status (response (getTodoByIDHandler
                                 \<lparr>port = p, todoService = NewTodoService rfc3339 repo\<rparr> idStr w))
              = (if loadNotFound repo tid w then 404 else 500))
       \<and> (\<forall>err. fst (todoService_UpdateTodo rfc3339 repo tid req w) = Inl err \<longrightarrow>
            Contains (Error err) ''not found'' = loadNotFound repo tid w
          \<and> status (response (updateTodoHandler
                                 \<lparr>port = p, todoService = NewTodoService rfc3339 repo\<rparr> idStr
                                 (Inr req) w))
              = (if loadNotFound repo tid w then 404 else 500))
       \<and> (\<forall>err. fst (todoService_DeleteTodo repo tid w) = Some err \<longrightarrow>
            Contains (Error err) ''not found'' = loadNotFound repo tid w
          \<and> status (response (deleteTodoHandler
                                 \<lparr>port = p, todoService = NewTodoService rfc3339 repo\<rparr> idStr w))
              = (if loadNotFound repo tid w then 404 else 500))"
proof (intro conjI allI impI)
  fix err
  assume e: "fst (todoService_GetTodoByID rfc3339 repo tid w) = Inl err"
  show c: "Contains (Error err) ''not found'' = loadNotFound repo tid w"
    by (rule GetTodoByID_error [OF e])
  obtain w' where "todoService_GetTodoByID rfc3339 repo tid w = (Inl err, w')"
    using e by (cases "todoService_GetTodoByID rfc3339 repo tid w") simp
  then show "status (response (getTodoByIDHandler
                                 \<lparr>port = p, todoService = NewTodoService rfc3339 repo\<rparr> idStr w))
              = (if loadNotFound repo tid w then 404 else 500)"
    using assms c
    by (simp add: getTodoByIDHandler_def NewTodoService_def response_reply status_respondWithError)
next
  fix err
  assume e: "fst (todoService_UpdateTodo rfc3339 repo tid req w) = Inl err"
  show c: "Contains (Error err) ''not found'' = loadNotFound repo tid w"
    by (rule UpdateTodo_error [OF e])
  obtain w' where "todoService_UpdateTodo rfc3339 repo tid req w = (Inl err, w')"
    using e by (cases "todoService_UpdateTodo rfc3339 repo tid req w") simp
  then show "status (response (updateTodoHandler
                                 \<lparr>port = p, todoService = NewTodoService rfc3339 repo\<rparr> idStr
                                 (Inr req) w))
              = (if loadNotFound repo tid w then 404 else 500)"
    using assms c
    by (simp add: updateTodoHandler_def NewTodoService_def response_reply status_respondWithError)
next
  fix err
  assume e: "fst (todoService_DeleteTodo repo tid w) = Some err"
  show c: "Contains (Error err) ''not found'' = loadNotFound repo tid w"
    by (rule DeleteTodo_error [OF e])
  obtain w' where "todoService_DeleteTodo repo tid w = (Some err, w')"
    using e by (cases "todoService_DeleteTodo repo tid w") simp
  then show "status (response (deleteTodoHandler
                                 \<lparr>port = p, todoService = NewTodoService rfc3339 repo\<rparr> idStr w))
              = (if loadNotFound repo tid w then 404 else 500)"
    using assms c
    by (simp add: deleteTodoHandler_def NewTodoService_def response_reply status_respondWithError)
qed

text \<open>
  The theorem at the in-memory repository, where todo 5 does not exist (404), and at a
  repository whose store is down (500).
\<close>

theorem not_found_channel_witness:
  "ParseUint ''5'' = Inr 5
   \<and> loadNotFound memRepo 5 \<lparr>store = oneStore, stdout = []\<rparr>
   \<and> fst (todoService_GetTodoByID FormatInt memRepo 5 \<lparr>store = oneStore, stdout = []\<rparr>)
       = Inl (ErrorString ''todo with ID 5 not found'')
   \<and> Contains ''todo with ID 5 not found'' ''not found''
   \<and> status (response (getTodoByIDHandler
                          \<lparr>port = 8080, todoService = NewTodoService FormatInt memRepo\<rparr> ''5''
                          \<lparr>store = oneStore, stdout = []\<rparr>)) = 404
   \<and> \<not> loadNotFound (failingRepo (ErrorString ''connection refused'')) 5
          \<lparr>store = oneStore, stdout = []\<rparr>
   \<and> fst (todoService_DeleteTodo (failingRepo (ErrorString ''connection refused'')) 5
            \<lparr>store = oneStore, stdout = []\<rparr>)
       = Some (ErrorString ''failed to check todo item before deletion'')
   \<and> status (response (deleteTodoHandler
                          \<lparr>port = 8080,
                           todoService = NewTodoService FormatInt
                                           (failingRepo (ErrorString ''connection refused''))\<rparr>
                          ''5'' \<lparr>store = oneStore, stdout = []\<rparr>)) = 500"
proof -
  have five: "ParseUint ''5'' = Inr 5"
    by (simp add: ParseUint_def isDigit_def maxUint64_def)
  have pos: "0 < (5::nat)"
    by simp
  have missing: "loadNotFound memRepo 5 \<lparr>store = oneStore, stdout = []\<rparr>"
    by (simp add: loadNotFound_def memRepo_def oneStore_def milk_def live_def)
  have down: "\<not> loadNotFound (failingRepo (ErrorString ''connection refused'')) 5
                  \<lparr>store = oneStore, stdout = []\<rparr>"
    by (simp add: loadNotFound_def failingRepo_def)
  have d5: "FormatUint 5 = ''5''"
    by (simp add: FormatUint.simps digit_def)
  have get: "fst (todoService_GetTodoByID FormatInt memRepo 5 \<lparr>store = oneStore, stdout = []\<rparr>)
       = Inl (ErrorString ''todo with ID 5 not found'')"
    by (simp add: todoService_GetTodoByID_def memRepo_def oneStore_def milk_def live_def d5)
  have del: "fst (todoService_DeleteTodo (failingRepo (ErrorString ''connection refused'')) 5
            \<lparr>store = oneStore, stdout = []\<rparr>)
       = Some (ErrorString ''failed to check todo item before deletion'')"
    by (simp add: todoService_DeleteTodo_def failingRepo_def)
  from not_found_channel [OF five pos, of FormatInt memRepo "\<lparr>store = oneStore, stdout = []\<rparr>"
         8080, THEN conjunct1, rule_format, OF get] missing
  have a: "Contains ''todo with ID 5 not found'' ''not found''"
    and b: "status (response (getTodoByIDHandler
                          \<lparr>port = 8080, todoService = NewTodoService FormatInt memRepo\<rparr> ''5''
                          \<lparr>store = oneStore, stdout = []\<rparr>)) = 404"
    by simp_all
  from not_found_channel [OF five pos, of FormatInt
         "failingRepo (ErrorString ''connection refused'')" "\<lparr>store = oneStore, stdout = []\<rparr>"
         8080, THEN conjunct2, THEN conjunct2, rule_format, OF del] down
  have c: "status (response (deleteTodoHandler
                          \<lparr>port = 8080,
                           todoService = NewTodoService FormatInt
                                           (failingRepo (ErrorString ''connection refused''))\<rparr>
                          ''5'' \<lparr>store = oneStore, stdout = []\<rparr>)) = 500"
    by simp
  from five missing get a b down del c show ?thesis
    by simp
qed

section \<open>Bodies that fail to decode\<close>

text \<open>
  The handler of \<^verbatim>\<open>POST /todos\<close> tells the decoder's errors apart: a syntax error is
  answered with its position, a type error with its field and position, an unknown field
  with the quoted name that the decoder's message ends with.
\<close>

lemma createTodoHandler_classifies:
  "response (createTodoHandler s (Inl (SyntaxError m off)) w)
     = \<lparr>status = 400, content_type = Some ''application/json; charset=utf-8'',
        body = Some (JObject [(''error'', JString
                 (''Request body contains badly-formed JSON (at position '' @ FormatInt off @ '')''))])\<rparr>"
  "response (createTodoHandler s (Inl (UnmarshalTypeError m field off)) w)
     = \<lparr>status = 400, content_type = Some ''application/json; charset=utf-8'',
        body = Some (JObject [(''error'', JString
                 (''Request body contains an invalid value for the '' @ Quote field
                  @ '' field (at position '' @ FormatInt off @ '')''))])\<rparr>"
  "response (createTodoHandler s (Inl (ErrorString (''json: unknown field '' @ q))) w)
     = \<lparr>status = 400, content_type = Some ''application/json; charset=utf-8'',
        body = Some (JObject [(''error'', JString (''Request body contains unknown field '' @ q))])\<rparr>"
  by (simp_all add: createTodoHandler_def reply_def respondWithError_def respondWithJSON_def
        TrimPrefix_def)

text \<open>
  Claim C2 at the handler of \<^verbatim>\<open>PUT /todos/{id}\<close>, for the identifier 1: whatever error
  the decoder returns (for an unknown field, for malformed JSON, for a value of the wrong
  type) the response is 400 with the one message \<^verbatim>\<open>Invalid request body\<close>. The decoder's
  error is written to the log only; the message neither differs between the three kinds
  of failure nor names a field or a position.
\<close>

theorem updateTodoHandler_decode_failure:
  "updateTodoHandler s ''1'' (Inl err) w
     = \<lparr>response = \<lparr>status = 400, content_type = Some ''application/json; charset=utf-8'',
                     body = Some (JObject [(''error'', JString ''Invalid request body'')])\<rparr>,
        logged = [''Error decoding update todo request: '' @ Error err],
        world = w\<rparr>"
  by (simp add: updateTodoHandler_def ParseUint_def isDigit_def maxUint64_def reply_def
        respondWithError_def respondWithJSON_def)

text \<open>
  The same unknown field \<^verbatim>\<open>done\<close> in both handlers: the one of \<^verbatim>\<open>POST\<close> names it, the one
  of \<^verbatim>\<open>PUT\<close> does not.
\<close>

lemma unknown_field_in_both_handlers:
  \<open>body (response (updateTodoHandler s ''1'' (Inl (ErrorString ''json: unknown field "done"'')) w))
     = Some (JObject [(''error'', JString ''Invalid request body'')])
   \<and> body (response (createTodoHandler s (Inl (ErrorString ''json: unknown field "done"'')) w))
     = Some (JObject [(''error'', JString ''Request body contains unknown field "done"'')])\<close>
  by (simp add: updateTodoHandler_def createTodoHandler_def ParseUint_def isDigit_def
        maxUint64_def reply_def respondWithError_def respondWithJSON_def TrimPrefix_def)

end
